theory Spec2Isabelle
  imports Complex_Main
begin

section \<open>Data model (cilisp.h)\<close>

text \<open>
  Pointers are addresses; \<open>None\<close> is the C \<open>NULL\<close>.  AST nodes and symbol-table nodes
  live in two typed stores of one heap.
\<close>

type_synonym addr = nat

datatype func_type =
    NEG_FUNC | ABS_FUNC | ADD_FUNC | SUB_FUNC | MULT_FUNC | DIV_FUNC | REMAINDER_FUNC
  | EXP_FUNC | EXP2_FUNC | POW_FUNC | LOG_FUNC | SQRT_FUNC | CBRT_FUNC | HYPOT_FUNC
  | MAX_FUNC | MIN_FUNC | CUSTOM_FUNC

datatype num_type = INT_TYPE | DOUBLE_TYPE | NO_TYPE

text \<open>\<open>AST_NUMBER\<close>, which is also \<open>RET_VAL\<close>.  The type \<open>'d\<close> stands for C's \<open>double\<close>.\<close>

record 'd ast_number =
  type :: num_type
  "value" :: 'd

type_synonym 'd ret_val = "'d ast_number"

text \<open>
  The field \<open>type\<close> of \<open>AST_NODE\<close> together with its union \<open>data\<close>: one constructor for
  each \<open>AST_NODE_TYPE\<close>, carrying the member of the union that goes with it
  (\<open>AST_NUMBER\<close>; \<open>func\<close> and \<open>opList\<close>; \<open>id\<close>; \<open>child\<close>).
\<close>

datatype 'd node_data =
    NUM_NODE "'d ast_number"
  | FUNC_NODE func_type "addr option"
  | SYM_NODE string
  | SCOPE_NODE "addr option"

record 'd ast_node =
  parent :: "addr option"
  symbolTable :: "addr option"
  data :: "'d node_data"
  "next" :: "addr option"

text \<open>
  \<open>SYMBOL_TABLE_NODE\<close>; its fields \<open>id\<close>, \<open>value\<close> and \<open>next\<close> carry the prefix \<open>sym_\<close>.
  The field \<open>id\<close> may be \<open>NULL\<close> (\<open>createSymbol\<close> stores \<open>NULL\<close> for a \<open>NULL\<close> name).  The
  struct's field \<open>type\<close> is never read or written by cilisp.c and is left out.
\<close>

record symbol_table_node =
  sym_id :: "string option"
  sym_value :: "addr option"
  sym_next :: "addr option"

text \<open>
  The heap: the allocated AST nodes, the allocated symbol-table nodes, the address the
  next successful \<open>calloc\<close> returns, and the number of allocations that still succeed.
\<close>

record 'd heap =
  nodes :: "addr \<Rightarrow> 'd ast_node option"
  syms :: "addr \<Rightarrow> symbol_table_node option"
  brk :: addr
  avail :: nat

text \<open>
  What a call can do other than return: run forever (the model runs out of fuel), read
  through a dangling pointer or hand \<open>NULL\<close> to \<open>strcmp\<close> (undefined behaviour), or leave
  the process through \<open>yyerror\<close>, which prints its message and calls \<open>exit(1)\<close>.
\<close>

datatype 'a outcome = OutOfFuel | Undefined | Exit string | Ret 'a

fun andThen :: "'a outcome \<Rightarrow> ('a \<Rightarrow> 'b outcome) \<Rightarrow> 'b outcome" where
  "andThen OutOfFuel f = OutOfFuel"
| "andThen Undefined f = Undefined"
| "andThen (Exit msg) f = Exit msg"
| "andThen (Ret x) f = f x"

text \<open>
  What the program prints: \<open>warning\<close> prints a line that starts with \<open>WARNING:\<close> and
  returns; \<open>evalSymbolNode\<close> also prints a bare text with \<open>printf\<close>.
\<close>

datatype event = Warning string | Printed string

definition calloc :: "'d heap \<Rightarrow> (addr \<times> 'd heap) option" where
  "calloc h =
     (if avail h = 0 then None
      else Some (brk h, h\<lparr>brk := Suc (brk h), avail := avail h - 1\<rparr>))"

definition node_at :: "'d heap \<Rightarrow> addr \<Rightarrow> 'd ast_node outcome" where
  "node_at h a = (case nodes h a of None \<Rightarrow> Undefined | Some nd \<Rightarrow> Ret nd)"

definition sym_at :: "'d heap \<Rightarrow> addr \<Rightarrow> symbol_table_node outcome" where
  "sym_at h t = (case syms h t of None \<Rightarrow> Undefined | Some e \<Rightarrow> Ret e)"

section \<open>Symbol tables\<close>

text \<open>
  \<open>findSymbol\<close>: the loop walks \<open>current\<close> along the table, and each round compares \<open>id\<close>
  with \<open>symbolTable->id\<close>, the name stored in the node the table starts with (the
  parameter \<open>symbolTable\<close> is \<open>symTab\<close> here).
\<close>

fun findSymbol_loop ::
  "nat \<Rightarrow> 'd heap \<Rightarrow> string \<Rightarrow> addr option \<Rightarrow> addr option \<Rightarrow> addr option outcome" where
  "findSymbol_loop k h ident symTab None = Ret None"
| "findSymbol_loop 0 h ident symTab (Some c) = OutOfFuel"
| "findSymbol_loop (Suc k) h ident symTab (Some c) =
     (case symTab of
        None \<Rightarrow> Undefined
      | Some t \<Rightarrow>
          andThen (sym_at h t) (\<lambda>first.
            case sym_id first of
              None \<Rightarrow> Undefined
            | Some name \<Rightarrow>
                if ident = name then Ret (Some c)
                else andThen (sym_at h c) (\<lambda>cur.
                       findSymbol_loop k h ident symTab (sym_next cur))))"

definition findSymbol ::
  "nat \<Rightarrow> 'd heap \<Rightarrow> string option \<Rightarrow> addr option \<Rightarrow> addr option outcome" where
  "findSymbol k h ident symTab =
     (case ident of
        None \<Rightarrow> Ret None
      | Some i \<Rightarrow> findSymbol_loop k h i symTab symTab)"

text \<open>
  \<open>createSymbol\<close>: a fresh table node holding a copy of the name, the value and no
  successor.  A failed allocation ends the process through \<open>yyerror\<close>.
\<close>

definition createSymbol ::
  "'d heap \<Rightarrow> string option \<Rightarrow> addr option \<Rightarrow> (addr \<times> 'd heap) outcome" where
  "createSymbol h ident v =
     (case calloc h of
        None \<Rightarrow> Exit ''Memory allocation failed!''
      | Some (t, h') \<Rightarrow>
          Ret (t, h'\<lparr>syms := (syms h')(t \<mapsto>
                 \<lparr>sym_id = ident, sym_value = v, sym_next = None\<rparr>)\<rparr>))"

text \<open>
  \<open>free\<close> of an AST node: \<open>free(NULL)\<close> does nothing, freeing an address that holds no
  node is undefined, and a freed node is gone from the store.
\<close>

definition free_node :: "'d heap \<Rightarrow> addr option \<Rightarrow> 'd heap outcome" where
  "free_node h p =
     (case p of
        None \<Rightarrow> Ret h
      | Some a \<Rightarrow>
          (case nodes h a of
             None \<Rightarrow> Undefined
           | Some nd \<Rightarrow> Ret (h\<lparr>nodes := (nodes h)(a := None)\<rparr>)))"

text \<open>
  \<open>addSymbolToTable\<close> returns the new head of the table, the heap it leaves and what it
  printed.  Names are values here, so \<open>free(new->id)\<close> leaves no trace; the node \<open>new\<close>
  itself is not freed by the source either.
\<close>

definition addSymbolToTable ::
  "nat \<Rightarrow> 'd heap \<Rightarrow> addr option \<Rightarrow> addr option
     \<Rightarrow> (addr option \<times> 'd heap \<times> event list) outcome" where
  "addSymbolToTable k h new table =
     (case new of
        None \<Rightarrow> Ret (new, h, [])
      | Some n \<Rightarrow>
          andThen (sym_at h n) (\<lambda>new_node.
          andThen (findSymbol k h (sym_id new_node) table) (\<lambda>old.
            case old of
              Some old_addr \<Rightarrow>
                andThen (sym_at h old_addr) (\<lambda>old_node.
                andThen (free_node h (sym_value old_node)) (\<lambda>h1.
                andThen (sym_at h1 n) (\<lambda>new_node1.
                andThen (sym_at h1 old_addr) (\<lambda>old_node1.
                  Ret (table,
                       h1\<lparr>syms := (syms h1)(old_addr \<mapsto>
                            old_node1\<lparr>sym_value := sym_value new_node1\<rparr>)\<rparr>,
                       [Warning ''Duplicate assignment to symbol''])))))
            | None \<Rightarrow>
                Ret (new,
                     h\<lparr>syms := (syms h)(n \<mapsto> new_node\<lparr>sym_next := table\<rparr>)\<rparr>,
                     []))))"

text \<open>
  Reading a table off the heap: \<open>table_list h p es\<close> holds when the nodes reached from
  \<open>p\<close> along \<open>next\<close> are exactly \<open>es\<close>, in this order, and the last one's \<open>next\<close> is
  \<open>NULL\<close>.
\<close>

fun table_list :: "'d heap \<Rightarrow> addr option \<Rightarrow> symbol_table_node list \<Rightarrow> bool" where
  "table_list h p [] = (p = None)"
| "table_list h p (e # es) =
     (case p of
        None \<Rightarrow> False
      | Some t \<Rightarrow> syms h t = Some e \<and> table_list h (sym_next e) es)"

section \<open>The C implementation\<close>

text \<open>
  The C implementation, as far as cilisp.c depends on it: arithmetic and comparison on
  \<open>double\<close> (\<open>a > b\<close> is read as \<open>b < a\<close>), the constants the source writes, the libm
  functions it calls, the value read from a \<open>NUM_TYPE\<close> local that was never assigned,
  and \<open>sizeof(char * )\<close>.  None of these is code of the repository, so the functions
  that depend on them take them as the parameter \<open>M\<close>.

  Names are values in this model, not heap objects: the \<open>malloc\<close> and \<open>strdup\<close> that hold
  a name are taken to succeed, and a freed name leaves no trace.
\<close>

record 'd platform =
  dbl_zero :: 'd
  dbl_two :: 'd
  dbl_nan :: 'd
  dbl_neg :: "'d \<Rightarrow> 'd"
  dbl_add :: "'d \<Rightarrow> 'd \<Rightarrow> 'd"
  dbl_sub :: "'d \<Rightarrow> 'd \<Rightarrow> 'd"
  dbl_mul :: "'d \<Rightarrow> 'd \<Rightarrow> 'd"
  dbl_div :: "'d \<Rightarrow> 'd \<Rightarrow> 'd"
  dbl_less :: "'d \<Rightarrow> 'd \<Rightarrow> bool"
  m_fabs :: "'d \<Rightarrow> 'd"
  m_fmod :: "'d \<Rightarrow> 'd \<Rightarrow> 'd"
  m_exp :: "'d \<Rightarrow> 'd"
  m_exp2 :: "'d \<Rightarrow> 'd"
  m_pow :: "'d \<Rightarrow> 'd \<Rightarrow> 'd"
  m_log :: "'d \<Rightarrow> 'd"
  m_sqrt :: "'d \<Rightarrow> 'd"
  m_cbrt :: "'d \<Rightarrow> 'd"
  indeterminate :: num_type
  sizeof_ptr :: nat

definition NAN_RET_VAL :: "'d platform \<Rightarrow> 'd ret_val" where
  "NAN_RET_VAL M = \<lparr>type = DOUBLE_TYPE, value = dbl_nan M\<rparr>"

definition ZERO_RET_VAL :: "'d platform \<Rightarrow> 'd ret_val" where
  "ZERO_RET_VAL M = \<lparr>type = INT_TYPE, value = dbl_zero M\<rparr>"

section \<open>Tree construction\<close>

text \<open>\<open>setParent\<close>: every node of the list that starts at \<open>list\<close> gets the parent \<open>p\<close>.\<close>

fun setParent :: "nat \<Rightarrow> 'd heap \<Rightarrow> addr option \<Rightarrow> addr option \<Rightarrow> 'd heap outcome" where
  "setParent k h None p = Ret h"
| "setParent 0 h (Some a) p = OutOfFuel"
| "setParent (Suc k) h (Some a) p =
     andThen (node_at h a) (\<lambda>nd.
       setParent k (h\<lparr>nodes := (nodes h)(a \<mapsto> nd\<lparr>parent := p\<rparr>)\<rparr>) (next nd) p)"

text \<open>
  A node fresh from \<open>calloc\<close> has every pointer \<open>NULL\<close>; the creating function then sets
  its type and data.
\<close>

definition new_node :: "'d heap \<Rightarrow> 'd node_data \<Rightarrow> (addr \<times> 'd heap) outcome" where
  "new_node h d =
     (case calloc h of
        None \<Rightarrow> Exit ''Memory allocation failed!''
      | Some (a, h') \<Rightarrow>
          Ret (a, h'\<lparr>nodes := (nodes h')(a \<mapsto>
                 \<lparr>parent = None, symbolTable = None, data = d, next = None\<rparr>)\<rparr>))"

definition createNumberNode :: "'d heap \<Rightarrow> 'd \<Rightarrow> num_type \<Rightarrow> (addr \<times> 'd heap) outcome" where
  "createNumberNode h v t = new_node h (NUM_NODE \<lparr>type = t, value = v\<rparr>)"

text \<open>
  \<open>createSymbolNode\<close> copies the name with \<open>strcpy\<close> into \<open>sizeof(id) + 1\<close> bytes, where
  \<open>id\<close> is a pointer: a \<open>NULL\<close> name, or a name of more characters than a pointer has
  bytes, is undefined behaviour.
\<close>

definition createSymbolNode ::
  "'d platform \<Rightarrow> 'd heap \<Rightarrow> string option \<Rightarrow> (addr \<times> 'd heap) outcome" where
  "createSymbolNode M h ident =
     andThen (new_node h (SYM_NODE [])) (\<lambda>(a, h').
       case ident of
         None \<Rightarrow> Undefined
       | Some i \<Rightarrow>
           if length i + 1 > sizeof_ptr M + 1 then Undefined
           else andThen (node_at h' a) (\<lambda>nd.
                  Ret (a, h'\<lparr>nodes := (nodes h')(a \<mapsto> nd\<lparr>data := SYM_NODE i\<rparr>)\<rparr>)))"

text \<open>
  \<open>createScopeNode\<close>: the loop hands the value of every table entry to \<open>setParent\<close>;
  then the child is handed to it.  \<open>n\<close> is the fuel of each \<open>setParent\<close>.
\<close>

fun createScopeNode_loop ::
  "nat \<Rightarrow> nat \<Rightarrow> 'd heap \<Rightarrow> addr option \<Rightarrow> addr \<Rightarrow> 'd heap outcome" where
  "createScopeNode_loop k n h None node = Ret h"
| "createScopeNode_loop 0 n h (Some t) node = OutOfFuel"
| "createScopeNode_loop (Suc k) n h (Some t) node =
     andThen (sym_at h t) (\<lambda>e.
     andThen (setParent n h (sym_value e) (Some node)) (\<lambda>h1.
     andThen (sym_at h1 t) (\<lambda>e1.
       createScopeNode_loop k n h1 (sym_next e1) node)))"

definition createScopeNode ::
  "nat \<Rightarrow> 'd heap \<Rightarrow> addr option \<Rightarrow> addr option \<Rightarrow> (addr \<times> 'd heap) outcome" where
  "createScopeNode k h symTab child =
     andThen (new_node h (SCOPE_NODE child)) (\<lambda>(node, h1).
     andThen (node_at h1 node) (\<lambda>nd.
     andThen (createScopeNode_loop k k
                (h1\<lparr>nodes := (nodes h1)(node \<mapsto> nd\<lparr>symbolTable := symTab\<rparr>)\<rparr>)
                symTab node) (\<lambda>h2.
     andThen (setParent k h2 child (Some node)) (\<lambda>h3.
       Ret (node, h3)))))"

definition createFunctionNode ::
  "nat \<Rightarrow> 'd heap \<Rightarrow> func_type \<Rightarrow> addr option \<Rightarrow> (addr \<times> 'd heap) outcome" where
  "createFunctionNode k h func opList =
     andThen (new_node h (FUNC_NODE func opList)) (\<lambda>(node, h1).
     andThen (setParent k h1 opList (Some node)) (\<lambda>h2.
       Ret (node, h2)))"

text \<open>\<open>addExpressionToList\<close> writes through \<open>newExpr\<close> without a check.\<close>

definition addExpressionToList ::
  "'d heap \<Rightarrow> addr option \<Rightarrow> addr option \<Rightarrow> (addr option \<times> 'd heap) outcome" where
  "addExpressionToList h newExpr exprList =
     (case newExpr of
        None \<Rightarrow> Undefined
      | Some a \<Rightarrow>
          andThen (node_at h a) (\<lambda>nd.
            Ret (newExpr, h\<lparr>nodes := (nodes h)(a \<mapsto> nd\<lparr>next := exprList\<rparr>)\<rparr>)))"

section \<open>Evaluation\<close>

text \<open>
  An evaluation returns a \<open>RET_VAL\<close> and what it printed.  The functions that evaluate an
  operand list call \<open>eval\<close> on operands; they take it as the parameter \<open>ev\<close>, and \<open>eval\<close>
  below passes itself with less fuel.
\<close>

type_synonym 'd evaluation = "('d ret_val \<times> event list) outcome"
type_synonym 'd evaluator = "addr option \<Rightarrow> 'd evaluation"

text \<open>
  \<open>evalNeg\<close>, \<open>evalAbs\<close>, \<open>evalExp\<close>, \<open>evalExp2\<close>, \<open>evalLog\<close>, \<open>evalSqrt\<close> and \<open>evalCbrt\<close> are
  the same text up to the function's name in the warnings and the result computed from
  the evaluated operand \<open>num\<close>; \<open>unary_call\<close> is this text.  The warning about extra
  operands is printed before the operand is evaluated.
\<close>

definition unary_call ::
  "string \<Rightarrow> ('d ret_val \<Rightarrow> 'd ret_val) \<Rightarrow> 'd platform \<Rightarrow> 'd evaluator \<Rightarrow> 'd heap
     \<Rightarrow> addr option \<Rightarrow> 'd evaluation" where
  "unary_call name compute M ev h oplist =
     (case oplist of
        None \<Rightarrow>
          Ret (NAN_RET_VAL M, [Warning (name @ '' called with no operands, NAN returned'')])
      | Some p \<Rightarrow>
          andThen (node_at h p) (\<lambda>first.
          andThen (ev oplist) (\<lambda>(num, out).
            Ret (compute num,
                 (if next first \<noteq> None
                  then [Warning (name @ '' called with extra operands'')] else []) @ out))))"

definition evalNeg :: "'d platform \<Rightarrow> 'd evaluator \<Rightarrow> 'd heap \<Rightarrow> addr option \<Rightarrow> 'd evaluation" where
  "evalNeg M = unary_call ''neg''
     (\<lambda>num. \<lparr>type = type num, value = dbl_neg M (value num)\<rparr>) M"

definition evalAbs :: "'d platform \<Rightarrow> 'd evaluator \<Rightarrow> 'd heap \<Rightarrow> addr option \<Rightarrow> 'd evaluation" where
  "evalAbs M = unary_call ''abs''
     (\<lambda>num. \<lparr>type = type num, value = m_fabs M (value num)\<rparr>) M"

definition evalExp :: "'d platform \<Rightarrow> 'd evaluator \<Rightarrow> 'd heap \<Rightarrow> addr option \<Rightarrow> 'd evaluation" where
  "evalExp M = unary_call ''exp''
     (\<lambda>num. \<lparr>type = DOUBLE_TYPE, value = m_exp M (value num)\<rparr>) M"

definition evalExp2 :: "'d platform \<Rightarrow> 'd evaluator \<Rightarrow> 'd heap \<Rightarrow> addr option \<Rightarrow> 'd evaluation" where
  "evalExp2 M = unary_call ''exp2''
     (\<lambda>num. let result = \<lparr>type = type num, value = m_exp2 M (value num)\<rparr>
            in if dbl_less M (value result) (dbl_zero M)
               then result\<lparr>type := DOUBLE_TYPE\<rparr> else result) M"

definition evalLog :: "'d platform \<Rightarrow> 'd evaluator \<Rightarrow> 'd heap \<Rightarrow> addr option \<Rightarrow> 'd evaluation" where
  "evalLog M = unary_call ''log''
     (\<lambda>num. \<lparr>type = DOUBLE_TYPE, value = m_log M (value num)\<rparr>) M"

definition evalSqrt :: "'d platform \<Rightarrow> 'd evaluator \<Rightarrow> 'd heap \<Rightarrow> addr option \<Rightarrow> 'd evaluation" where
  "evalSqrt M = unary_call ''sqrt''
     (\<lambda>num. \<lparr>type = DOUBLE_TYPE, value = m_sqrt M (value num)\<rparr>) M"

definition evalCbrt :: "'d platform \<Rightarrow> 'd evaluator \<Rightarrow> 'd heap \<Rightarrow> addr option \<Rightarrow> 'd evaluation" where
  "evalCbrt M = unary_call ''cbrt''
     (\<lambda>num. \<lparr>type = DOUBLE_TYPE, value = m_cbrt M (value num)\<rparr>) M"

text \<open>
  \<open>evalSub\<close>, \<open>evalMult\<close>, \<open>evalDiv\<close>, \<open>evalRemainder\<close> and \<open>evalPow\<close> are the same text up to
  the function's name in the warnings and the operation on the two values;
  \<open>binary_call\<close> is this text.  Both operands are evaluated before the third is looked
  for.
\<close>

definition binary_call ::
  "string \<Rightarrow> ('d \<Rightarrow> 'd \<Rightarrow> 'd) \<Rightarrow> 'd platform \<Rightarrow> 'd evaluator \<Rightarrow> 'd heap
     \<Rightarrow> addr option \<Rightarrow> 'd evaluation" where
  "binary_call name operation M ev h oplist =
     (case oplist of
        None \<Rightarrow>
          Ret (ZERO_RET_VAL M, [Warning (name @ '' called with no operands, 0 returned'')])
      | Some p \<Rightarrow>
          andThen (node_at h p) (\<lambda>first.
            case next first of
              None \<Rightarrow>
                Ret (NAN_RET_VAL M,
                     [Warning (name @ '' called with 1 operand, NAN returned'')])
            | Some q \<Rightarrow>
                andThen (ev oplist) (\<lambda>(firstOp, out1).
                andThen (ev (next first)) (\<lambda>(secondOP, out2).
                andThen (node_at h q) (\<lambda>second.
                  Ret (\<lparr>type = (if type firstOp = DOUBLE_TYPE \<or> type secondOP = DOUBLE_TYPE
                               then DOUBLE_TYPE else INT_TYPE),
                        value = operation (value firstOp) (value secondOP)\<rparr>,
                       out1 @ out2 @
                       (if next second \<noteq> None
                        then [Warning (name @ '' called with too many operands, ignoring extra'')]
                        else [])))))))"

definition evalSub :: "'d platform \<Rightarrow> 'd evaluator \<Rightarrow> 'd heap \<Rightarrow> addr option \<Rightarrow> 'd evaluation" where
  "evalSub M = binary_call ''sub'' (dbl_sub M) M"

definition evalMult :: "'d platform \<Rightarrow> 'd evaluator \<Rightarrow> 'd heap \<Rightarrow> addr option \<Rightarrow> 'd evaluation" where
  "evalMult M = binary_call ''mult'' (dbl_mul M) M"

definition evalDiv :: "'d platform \<Rightarrow> 'd evaluator \<Rightarrow> 'd heap \<Rightarrow> addr option \<Rightarrow> 'd evaluation" where
  "evalDiv M = binary_call ''div'' (dbl_div M) M"

definition evalRemainder ::
  "'d platform \<Rightarrow> 'd evaluator \<Rightarrow> 'd heap \<Rightarrow> addr option \<Rightarrow> 'd evaluation" where
  "evalRemainder M = binary_call ''remainder'' (\<lambda>x y. m_fabs M (m_fmod M x y)) M"

definition evalPow :: "'d platform \<Rightarrow> 'd evaluator \<Rightarrow> 'd heap \<Rightarrow> addr option \<Rightarrow> 'd evaluation" where
  "evalPow M = binary_call ''pow'' (m_pow M) M"

text \<open>
  \<open>evalAdd\<close>: \<open>result\<close> starts with the value 0 and a type that was never assigned; each
  round evaluates the operand, takes over its type and adds its value.
\<close>

fun evalAdd_loop ::
  "nat \<Rightarrow> 'd platform \<Rightarrow> 'd evaluator \<Rightarrow> 'd heap \<Rightarrow> addr option \<Rightarrow> 'd ret_val
     \<Rightarrow> event list \<Rightarrow> 'd evaluation" where
  "evalAdd_loop k M ev h None result out = Ret (result, out)"
| "evalAdd_loop 0 M ev h (Some p) result out = OutOfFuel"
| "evalAdd_loop (Suc k) M ev h (Some p) result out =
     andThen (ev (Some p)) (\<lambda>(num, out1).
     andThen (node_at h p) (\<lambda>nd.
       evalAdd_loop k M ev h (next nd)
         \<lparr>type = type num, value = dbl_add M (value result) (value num)\<rparr> (out @ out1)))"

definition evalAdd ::
  "nat \<Rightarrow> 'd platform \<Rightarrow> 'd evaluator \<Rightarrow> 'd heap \<Rightarrow> addr option \<Rightarrow> 'd evaluation" where
  "evalAdd k M ev h oplist =
     (case oplist of
        None \<Rightarrow> Ret (ZERO_RET_VAL M, [Warning ''add called with no operands, 0 returned''])
      | Some p \<Rightarrow>
          evalAdd_loop k M ev h oplist \<lparr>type = indeterminate M, value = dbl_zero M\<rparr> [])"

text \<open>
  \<open>evalHypot\<close>: the loop adds \<open>pow(num.value, 2)\<close> to the value; the type is set and the
  root is taken after the loop.
\<close>

fun evalHypot_loop ::
  "nat \<Rightarrow> 'd platform \<Rightarrow> 'd evaluator \<Rightarrow> 'd heap \<Rightarrow> addr option \<Rightarrow> 'd ret_val
     \<Rightarrow> event list \<Rightarrow> 'd evaluation" where
  "evalHypot_loop k M ev h None result out =
     Ret (\<lparr>type = DOUBLE_TYPE, value = m_sqrt M (value result)\<rparr>, out)"
| "evalHypot_loop 0 M ev h (Some p) result out = OutOfFuel"
| "evalHypot_loop (Suc k) M ev h (Some p) result out =
     andThen (ev (Some p)) (\<lambda>(num, out1).
     andThen (node_at h p) (\<lambda>nd.
       evalHypot_loop k M ev h (next nd)
         (result\<lparr>value := dbl_add M (value result) (m_pow M (value num) (dbl_two M))\<rparr>)
         (out @ out1)))"

definition evalHypot ::
  "nat \<Rightarrow> 'd platform \<Rightarrow> 'd evaluator \<Rightarrow> 'd heap \<Rightarrow> addr option \<Rightarrow> 'd evaluation" where
  "evalHypot k M ev h oplist =
     (case oplist of
        None \<Rightarrow> Ret (ZERO_RET_VAL M, [Warning ''hypot called with no operands, 0 returned''])
      | Some p \<Rightarrow>
          evalHypot_loop k M ev h oplist \<lparr>type = indeterminate M, value = dbl_zero M\<rparr> [])"

text \<open>
  \<open>evalMin\<close> and \<open>evalMax\<close>: the first operand is evaluated and its value, and only its
  value, is stored in \<open>result\<close>.  The loop over the other operands assigns type and value
  together, when \<open>result.value > num.value\<close> (for \<open>evalMax\<close>: \<open>result.value < num.value\<close>).
\<close>

fun evalMin_loop ::
  "nat \<Rightarrow> 'd platform \<Rightarrow> 'd evaluator \<Rightarrow> 'd heap \<Rightarrow> addr option \<Rightarrow> 'd ret_val
     \<Rightarrow> event list \<Rightarrow> 'd evaluation" where
  "evalMin_loop k M ev h None result out = Ret (result, out)"
| "evalMin_loop 0 M ev h (Some p) result out = OutOfFuel"
| "evalMin_loop (Suc k) M ev h (Some p) result out =
     andThen (ev (Some p)) (\<lambda>(num, out1).
     andThen (node_at h p) (\<lambda>nd.
       evalMin_loop k M ev h (next nd)
         (if dbl_less M (value num) (value result)
          then \<lparr>type = type num, value = value num\<rparr> else result)
         (out @ out1)))"

definition evalMin ::
  "nat \<Rightarrow> 'd platform \<Rightarrow> 'd evaluator \<Rightarrow> 'd heap \<Rightarrow> addr option \<Rightarrow> 'd evaluation" where
  "evalMin k M ev h oplist =
     (case oplist of
        None \<Rightarrow> Ret (ZERO_RET_VAL M, [Warning ''min called with no operands, 0 returned''])
      | Some p \<Rightarrow>
          andThen (ev oplist) (\<lambda>(num, out).
          andThen (node_at h p) (\<lambda>nd.
            evalMin_loop k M ev h (next nd)
              \<lparr>type = indeterminate M, value = value num\<rparr> out)))"

fun evalMax_loop ::
  "nat \<Rightarrow> 'd platform \<Rightarrow> 'd evaluator \<Rightarrow> 'd heap \<Rightarrow> addr option \<Rightarrow> 'd ret_val
     \<Rightarrow> event list \<Rightarrow> 'd evaluation" where
  "evalMax_loop k M ev h None result out = Ret (result, out)"
| "evalMax_loop 0 M ev h (Some p) result out = OutOfFuel"
| "evalMax_loop (Suc k) M ev h (Some p) result out =
     andThen (ev (Some p)) (\<lambda>(num, out1).
     andThen (node_at h p) (\<lambda>nd.
       evalMax_loop k M ev h (next nd)
         (if dbl_less M (value result) (value num)
          then \<lparr>type = type num, value = value num\<rparr> else result)
         (out @ out1)))"

definition evalMax ::
  "nat \<Rightarrow> 'd platform \<Rightarrow> 'd evaluator \<Rightarrow> 'd heap \<Rightarrow> addr option \<Rightarrow> 'd evaluation" where
  "evalMax k M ev h oplist =
     (case oplist of
        None \<Rightarrow> Ret (ZERO_RET_VAL M, [Warning ''max called with no operands, 0 returned''])
      | Some p \<Rightarrow>
          andThen (ev oplist) (\<lambda>(num, out).
          andThen (node_at h p) (\<lambda>nd.
            evalMax_loop k M ev h (next nd)
              \<lparr>type = indeterminate M, value = value num\<rparr> out)))"

text \<open>
  \<open>evalFuncNode\<close>: the switch over the function tag; a tag with no case (the custom
  tag) returns \<open>NAN_RET_VAL\<close> and prints nothing.  \<open>k\<close> is the fuel of the operand loops.
\<close>

definition evalFuncNode ::
  "nat \<Rightarrow> 'd platform \<Rightarrow> 'd evaluator \<Rightarrow> 'd heap \<Rightarrow> addr option \<Rightarrow> 'd evaluation" where
  "evalFuncNode k M ev h node =
     (case node of
        None \<Rightarrow> Exit ''NULL ast node passed into evalFuncNode!''
      | Some a \<Rightarrow>
          andThen (node_at h a) (\<lambda>nd.
            case data nd of
              FUNC_NODE func oplist \<Rightarrow>
                (case func of
                   NEG_FUNC \<Rightarrow> evalNeg M ev h oplist
                 | ADD_FUNC \<Rightarrow> evalAdd k M ev h oplist
                 | ABS_FUNC \<Rightarrow> evalAbs M ev h oplist
                 | SUB_FUNC \<Rightarrow> evalSub M ev h oplist
                 | MULT_FUNC \<Rightarrow> evalMult M ev h oplist
                 | DIV_FUNC \<Rightarrow> evalDiv M ev h oplist
                 | REMAINDER_FUNC \<Rightarrow> evalRemainder M ev h oplist
                 | EXP_FUNC \<Rightarrow> evalExp M ev h oplist
                 | EXP2_FUNC \<Rightarrow> evalExp2 M ev h oplist
                 | POW_FUNC \<Rightarrow> evalPow M ev h oplist
                 | LOG_FUNC \<Rightarrow> evalLog M ev h oplist
                 | SQRT_FUNC \<Rightarrow> evalSqrt M ev h oplist
                 | CBRT_FUNC \<Rightarrow> evalCbrt M ev h oplist
                 | HYPOT_FUNC \<Rightarrow> evalHypot k M ev h oplist
                 | MIN_FUNC \<Rightarrow> evalMin k M ev h oplist
                 | MAX_FUNC \<Rightarrow> evalMax k M ev h oplist
                 | CUSTOM_FUNC \<Rightarrow> Ret (NAN_RET_VAL M, []))
            | _ \<Rightarrow> Undefined))"

definition evalNumNode :: "'d heap \<Rightarrow> addr option \<Rightarrow> 'd evaluation" where
  "evalNumNode h node =
     (case node of
        None \<Rightarrow> Exit ''NULL ast node passed into evalNumNode!''
      | Some a \<Rightarrow>
          andThen (node_at h a) (\<lambda>nd.
            case data nd of
              NUM_NODE num \<Rightarrow> Ret (\<lparr>type = type num, value = value num\<rparr>, [])
            | _ \<Rightarrow> Undefined))"

definition evalScope :: "'d platform \<Rightarrow> 'd evaluator \<Rightarrow> 'd heap \<Rightarrow> addr option \<Rightarrow> 'd evaluation" where
  "evalScope M ev h node =
     (case node of
        None \<Rightarrow> Ret (NAN_RET_VAL M, [Warning ''null node passed to eval scope''])
      | Some a \<Rightarrow>
          andThen (node_at h a) (\<lambda>nd.
            case data nd of
              SCOPE_NODE child \<Rightarrow> ev child
            | _ \<Rightarrow> Undefined))"

text \<open>
  \<open>evalSymbolNode\<close>, inner loop: the table of the current node is searched for an entry
  whose name is the symbol's name.  The result is \<open>Some v\<close> for the first such entry,
  \<open>v\<close> being its value, and \<open>None\<close> when the table has none.
\<close>

fun evalSymbolNode_table ::
  "nat \<Rightarrow> 'd heap \<Rightarrow> string \<Rightarrow> addr option \<Rightarrow> addr option option outcome" where
  "evalSymbolNode_table k h ident None = Ret None"
| "evalSymbolNode_table 0 h ident (Some t) = OutOfFuel"
| "evalSymbolNode_table (Suc k) h ident (Some t) =
     andThen (sym_at h t) (\<lambda>e.
       case sym_id e of
         None \<Rightarrow> Undefined
       | Some name \<Rightarrow>
           if name = ident then Ret (Some (sym_value e))
           else evalSymbolNode_table k h ident (sym_next e))"

text \<open>
  \<open>evalSymbolNode\<close>, outer loop: \<open>currScope\<close> starts at the symbol node and follows
  \<open>parent\<close>.  The value of a matching entry is evaluated.  \<open>n\<close> is the fuel of each
  search of a table.
\<close>

fun evalSymbolNode_loop ::
  "nat \<Rightarrow> nat \<Rightarrow> 'd platform \<Rightarrow> 'd evaluator \<Rightarrow> 'd heap \<Rightarrow> string \<Rightarrow> addr option
     \<Rightarrow> 'd evaluation" where
  "evalSymbolNode_loop k n M ev h ident None =
     Ret (NAN_RET_VAL M, [Warning ''undefined symbol, nan returned''])"
| "evalSymbolNode_loop 0 n M ev h ident (Some c) = OutOfFuel"
| "evalSymbolNode_loop (Suc k) n M ev h ident (Some c) =
     andThen (node_at h c) (\<lambda>currScope.
     andThen (evalSymbolNode_table n h ident (symbolTable currScope)) (\<lambda>found.
       case found of
         Some v \<Rightarrow> ev v
       | None \<Rightarrow>
           andThen (evalSymbolNode_loop k n M ev h ident (parent currScope)) (\<lambda>(r, out).
             Ret (r, (if parent currScope = None then [Printed ''parent is null'']
                      else []) @ out))))"

definition evalSymbolNode ::
  "nat \<Rightarrow> 'd platform \<Rightarrow> 'd evaluator \<Rightarrow> 'd heap \<Rightarrow> addr option \<Rightarrow> 'd evaluation" where
  "evalSymbolNode k M ev h node =
     (case node of
        None \<Rightarrow> Ret (NAN_RET_VAL M, [Warning ''null node passed to eval scope''])
      | Some a \<Rightarrow>
          andThen (node_at h a) (\<lambda>nd.
            case data nd of
              SYM_NODE ident \<Rightarrow> evalSymbolNode_loop k k M ev h ident node
            | _ \<Rightarrow> Undefined))"

text \<open>
  \<open>eval\<close>.  The C function recurses without a bound; \<open>eval n\<close> allows calls nested \<open>n\<close>
  deep, and each loop below one call \<open>n - 1\<close> rounds.
\<close>

fun eval :: "nat \<Rightarrow> 'd platform \<Rightarrow> 'd heap \<Rightarrow> addr option \<Rightarrow> 'd evaluation" where
  "eval 0 M h node = OutOfFuel"
| "eval (Suc n) M h None = Exit ''NULL ast node passed into eval!''"
| "eval (Suc n) M h (Some a) =
     andThen (node_at h a) (\<lambda>nd.
       case data nd of
         NUM_NODE num \<Rightarrow> evalNumNode h (Some a)
       | FUNC_NODE func oplist \<Rightarrow> evalFuncNode n M (eval n M h) h (Some a)
       | SCOPE_NODE child \<Rightarrow> evalScope M (eval n M h) h (Some a)
       | SYM_NODE ident \<Rightarrow> evalSymbolNode n M (eval n M h) h (Some a))"

section \<open>Reading lists off the heap\<close>

text \<open>
  \<open>operand_list h p as\<close>: the nodes reached from \<open>p\<close> along \<open>next\<close> are at the addresses
  \<open>as\<close>, in this order, and the last one's \<open>next\<close> is \<open>NULL\<close>.
\<close>

fun operand_list :: "'d heap \<Rightarrow> addr option \<Rightarrow> addr list \<Rightarrow> bool" where
  "operand_list h p [] = (p = None)"
| "operand_list h p (a # as) =
     (p = Some a \<and> (case nodes h a of None \<Rightarrow> False | Some nd \<Rightarrow> operand_list h (next nd) as))"

text \<open>
  \<open>scope_chain h p nds\<close>: the nodes reached from \<open>p\<close> along \<open>parent\<close> are \<open>nds\<close>, in this
  order, and the last one has no parent.
\<close>

fun scope_chain :: "'d heap \<Rightarrow> addr option \<Rightarrow> 'd ast_node list \<Rightarrow> bool" where
  "scope_chain h p [] = (p = None)"
| "scope_chain h p (nd # nds) =
     (case p of
        None \<Rightarrow> False
      | Some a \<Rightarrow> nodes h a = Some nd \<and> scope_chain h (parent nd) nds)"

section \<open>A platform to run examples on\<close>

text \<open>
  An interpretation of the platform for running the evaluator on concrete trees.  A
  double is an exact real number or NaN.  Every result that is not a real number
  (division by zero, a logarithm or a root outside its domain) is NaN: rounding,
  infinities and signed zeros are absent.  On operands and results that binary64
  represents exactly, and all examples below are such, sum, difference and comparison
  are those of binary64.
\<close>

datatype dbl = Fin real | NaN

fun dbl1 :: "(real \<Rightarrow> dbl) \<Rightarrow> dbl \<Rightarrow> dbl" where
  "dbl1 f (Fin x) = f x"
| "dbl1 f NaN = NaN"

fun dbl2 :: "(real \<Rightarrow> real \<Rightarrow> dbl) \<Rightarrow> dbl \<Rightarrow> dbl \<Rightarrow> dbl" where
  "dbl2 f (Fin x) (Fin y) = f x y"
| "dbl2 f x y = NaN"

fun dbl_lt :: "dbl \<Rightarrow> dbl \<Rightarrow> bool" where
  "dbl_lt (Fin x) (Fin y) = (x < y)"
| "dbl_lt x y = False"

definition real_fmod :: "real \<Rightarrow> real \<Rightarrow> dbl" where
  "real_fmod x y =
     (if y = 0 then NaN
      else Fin (x - y * of_int (if 0 \<le> x / y then \<lfloor>x / y\<rfloor> else \<lceil>x / y\<rceil>)))"

definition real_pow :: "real \<Rightarrow> real \<Rightarrow> dbl" where
  "real_pow x y =
     (if y = of_int \<lfloor>y\<rfloor> then (if x = 0 \<and> y < 0 then NaN else Fin (power_int x \<lfloor>y\<rfloor>))
      else if 0 < x then Fin (x powr y)
      else if x = 0 \<and> 0 < y then Fin 0
      else NaN)"

definition real_platform :: "dbl platform" where
  "real_platform =
     \<lparr>dbl_zero = Fin 0,
      dbl_two = Fin 2,
      dbl_nan = NaN,
      dbl_neg = dbl1 (\<lambda>x. Fin (- x)),
      dbl_add = dbl2 (\<lambda>x y. Fin (x + y)),
      dbl_sub = dbl2 (\<lambda>x y. Fin (x - y)),
      dbl_mul = dbl2 (\<lambda>x y. Fin (x * y)),
      dbl_div = dbl2 (\<lambda>x y. if y = 0 then NaN else Fin (x / y)),
      dbl_less = dbl_lt,
      m_fabs = dbl1 (\<lambda>x. Fin \<bar>x\<bar>),
      m_fmod = dbl2 real_fmod,
      m_exp = dbl1 (\<lambda>x. Fin (exp x)),
      m_exp2 = dbl1 (\<lambda>x. Fin (2 powr x)),
      m_pow = dbl2 real_pow,
      m_log = dbl1 (\<lambda>x. if 0 < x then Fin (ln x) else NaN),
      m_sqrt = dbl1 (\<lambda>x. if 0 \<le> x then Fin (sqrt x) else NaN),
      m_cbrt = dbl1 (\<lambda>x. Fin (root 3 x)),
      indeterminate = NO_TYPE,
      sizeof_ptr = 8\<rparr>"

text \<open>A heap with nothing allocated, where the next hundred allocations succeed.\<close>

definition empty_heap :: "'d heap" where
  "empty_heap = \<lparr>nodes = (\<lambda>a. None), syms = (\<lambda>a. None), brk = 1, avail = 100\<rparr>"

section \<open>Notions the properties are stated with\<close>

text \<open>
  The operation each two-operand function applies to the values of its operands (the
  right-hand side of its \<open>result.value = ...\<close>), and the name it prints in warnings.
\<close>

definition binary_operation :: "'d platform \<Rightarrow> func_type \<Rightarrow> ('d \<Rightarrow> 'd \<Rightarrow> 'd) option" where
  "binary_operation M func =
     (case func of
        SUB_FUNC \<Rightarrow> Some (dbl_sub M)
      | MULT_FUNC \<Rightarrow> Some (dbl_mul M)
      | DIV_FUNC \<Rightarrow> Some (dbl_div M)
      | REMAINDER_FUNC \<Rightarrow> Some (\<lambda>x y. m_fabs M (m_fmod M x y))
      | POW_FUNC \<Rightarrow> Some (m_pow M)
      | _ \<Rightarrow> None)"

definition binary_name :: "func_type \<Rightarrow> string" where
  "binary_name func =
     (case func of
        SUB_FUNC \<Rightarrow> ''sub''
      | MULT_FUNC \<Rightarrow> ''mult''
      | DIV_FUNC \<Rightarrow> ''div''
      | REMAINDER_FUNC \<Rightarrow> ''remainder''
      | POW_FUNC \<Rightarrow> ''pow''
      | _ \<Rightarrow> [])"

text \<open>
  \<open>cut_after h q\<close> is the heap \<open>h\<close> with the list of the node at \<open>q\<close> ended after this
  node; \<open>and_warn msg r\<close> is the evaluation \<open>r\<close> followed by the warning \<open>msg\<close>.
\<close>

definition cut_after :: "'d heap \<Rightarrow> addr \<Rightarrow> 'd heap" where
  "cut_after h q =
     (case nodes h q of
        None \<Rightarrow> h
      | Some nd \<Rightarrow> h\<lparr>nodes := (nodes h)(q \<mapsto> nd\<lparr>next := None\<rparr>)\<rparr>)"

definition and_warn :: "string \<Rightarrow> 'd evaluation \<Rightarrow> 'd evaluation" where
  "and_warn msg r = andThen r (\<lambda>(v, out). Ret (v, out @ [Warning msg]))"

text \<open>One round of the loop of \<open>evalAdd\<close>, as a function of \<open>result\<close> and \<open>num\<close>.\<close>

definition add_step :: "'d platform \<Rightarrow> 'd ret_val \<Rightarrow> 'd ret_val \<Rightarrow> 'd ret_val" where
  "add_step M acc num = \<lparr>type = type num, value = dbl_add M (value acc) (value num)\<rparr>"

text \<open>
  Resolution as the specification words it.  \<open>lookupLocal\<close>: the first entry of a table
  whose name is the searched name.  \<open>resolve\<close>: the tables of the nodes on the way
  outward are inspected in this order, and the first local match wins.
\<close>

definition lookupLocal :: "string \<Rightarrow> symbol_table_node list \<Rightarrow> symbol_table_node option" where
  "lookupLocal name es = find (\<lambda>e. sym_id e = Some name) es"

fun resolve :: "string \<Rightarrow> symbol_table_node list list \<Rightarrow> symbol_table_node option" where
  "resolve name [] = None"
| "resolve name (es # outer) =
     (case lookupLocal name es of
        Some e \<Rightarrow> Some e
      | None \<Rightarrow> resolve name outer)"

text \<open>
  The bindings of a table, from its head on: the name of each entry with what its value
  evaluates to.
\<close>

fun table_bindings ::
  "nat \<Rightarrow> 'd platform \<Rightarrow> 'd heap \<Rightarrow> addr option \<Rightarrow> (string option \<times> 'd ret_val) list outcome"
  where
  "table_bindings k M h None = Ret []"
| "table_bindings 0 M h (Some t) = OutOfFuel"
| "table_bindings (Suc k) M h (Some t) =
     andThen (sym_at h t) (\<lambda>e.
     andThen (eval k M h (sym_value e)) (\<lambda>(v, out).
     andThen (table_bindings k M h (sym_next e)) (\<lambda>bindings.
       Ret ((sym_id e, v) # bindings))))"

section \<open>Example trees\<close>

text \<open>
  Trees are built the way a parser would build them, by the construction functions.
  \<open>number_list\<close> builds a list of number literals, \<open>call_tree\<close> a call of a function on
  such a list.
\<close>

fun number_list :: "'d heap \<Rightarrow> ('d \<times> num_type) list \<Rightarrow> (addr option \<times> 'd heap) outcome" where
  "number_list h [] = Ret (None, h)"
| "number_list h ((v, t) # rest) =
     andThen (number_list h rest) (\<lambda>(l, h1).
     andThen (createNumberNode h1 v t) (\<lambda>(n, h2).
       addExpressionToList h2 (Some n) l))"

definition call_tree :: "func_type \<Rightarrow> (dbl \<times> num_type) list \<Rightarrow> (addr \<times> dbl heap) outcome" where
  "call_tree func args =
     andThen (number_list empty_heap args) (\<lambda>(l, h). createFunctionNode 10 h func l)"

text \<open>
  A table of two entries: \<open>b\<close> is bound to 1 and inserted into the empty table, then \<open>a\<close>
  is bound to 2 and inserted.  \<open>insert_again name\<close> binds \<open>name\<close> to 3, inserts it into this
  table and returns the bindings of the table \<open>addSymbolToTable\<close> returned, with what it
  printed.
\<close>

definition two_entry_table :: "(addr option \<times> dbl heap) outcome" where
  "two_entry_table =
     andThen (createNumberNode empty_heap (Fin 1) INT_TYPE) (\<lambda>(n1, h1).
     andThen (createSymbol h1 (Some ''b'') (Some n1)) (\<lambda>(b, h2).
     andThen (addSymbolToTable 10 h2 (Some b) None) (\<lambda>(t1, h3, out1).
     andThen (createNumberNode h3 (Fin 2) INT_TYPE) (\<lambda>(n2, h4).
     andThen (createSymbol h4 (Some ''a'') (Some n2)) (\<lambda>(a, h5).
     andThen (addSymbolToTable 10 h5 (Some a) t1) (\<lambda>(t2, h6, out2).
       Ret (t2, h6)))))))"

definition insert_again ::
  "string \<Rightarrow> ((string option \<times> dbl ret_val) list \<times> event list) outcome" where
  "insert_again name =
     andThen two_entry_table (\<lambda>(t, h).
     andThen (createNumberNode h (Fin 3) INT_TYPE) (\<lambda>(n3, h1).
     andThen (createSymbol h1 (Some name) (Some n3)) (\<lambda>(new, h2).
     andThen (addSymbolToTable 10 h2 (Some new) t) (\<lambda>(t', h3, out).
     andThen (table_bindings 10 real_platform h3 t') (\<lambda>bindings.
       Ret (bindings, out))))))"

text \<open>
  \<open>shadow_tree\<close> is \<open>((let (x 1)) (add ((let (x 2)) x) x))\<close>; it returns the addresses of the
  inner reference to \<open>x\<close>, of the outer reference to \<open>x\<close> and of the root.
  \<open>undefined_tree\<close> is \<open>((let (x 1)) y)\<close>; it returns the addresses of \<open>y\<close> and of the root.
\<close>

definition shadow_tree :: "(addr \<times> addr \<times> addr \<times> dbl heap) outcome" where
  "shadow_tree =
     andThen (createNumberNode empty_heap (Fin 1) INT_TYPE) (\<lambda>(n1, h1).
     andThen (createSymbol h1 (Some ''x'') (Some n1)) (\<lambda>(e1, h2).
     andThen (addSymbolToTable 10 h2 (Some e1) None) (\<lambda>(outer_table, h3, out1).
     andThen (createNumberNode h3 (Fin 2) INT_TYPE) (\<lambda>(n2, h4).
     andThen (createSymbol h4 (Some ''x'') (Some n2)) (\<lambda>(e2, h5).
     andThen (addSymbolToTable 10 h5 (Some e2) None) (\<lambda>(inner_table, h6, out2).
     andThen (createSymbolNode real_platform h6 (Some ''x'')) (\<lambda>(x_inner, h7).
     andThen (createScopeNode 10 h7 inner_table (Some x_inner)) (\<lambda>(inner, h8).
     andThen (createSymbolNode real_platform h8 (Some ''x'')) (\<lambda>(x_outer, h9).
     andThen (addExpressionToList h9 (Some x_outer) None) (\<lambda>(l1, h10).
     andThen (addExpressionToList h10 (Some inner) l1) (\<lambda>(l2, h11).
     andThen (createFunctionNode 10 h11 ADD_FUNC l2) (\<lambda>(f, h12).
     andThen (createScopeNode 10 h12 outer_table (Some f)) (\<lambda>(outer, h13).
       Ret (x_inner, x_outer, outer, h13))))))))))))))"

definition undefined_tree :: "(addr \<times> addr \<times> dbl heap) outcome" where
  "undefined_tree =
     andThen (createNumberNode empty_heap (Fin 1) INT_TYPE) (\<lambda>(n1, h1).
     andThen (createSymbol h1 (Some ''x'') (Some n1)) (\<lambda>(e1, h2).
     andThen (addSymbolToTable 10 h2 (Some e1) None) (\<lambda>(table, h3, out1).
     andThen (createSymbolNode real_platform h3 (Some ''y'')) (\<lambda>(y, h4).
     andThen (createScopeNode 10 h4 table (Some y)) (\<lambda>(scope, h5).
       Ret (y, scope, h5))))))"

section \<open>Running the model\<close>

lemmas build_simps =
  createNumberNode_def new_node_def calloc_def empty_heap_def createSymbol_def
  addSymbolToTable_def sym_at_def node_at_def findSymbol_def createSymbolNode_def
  createScopeNode_def createFunctionNode_def addExpressionToList_def free_node_def
  call_tree_def two_entry_table_def insert_again_def shadow_tree_def undefined_tree_def
  eval_nat_numeral

lemmas run_simps =
  evalNumNode_def evalFuncNode_def evalScope_def evalSymbolNode_def
  evalAdd_def evalHypot_def evalMin_def evalMax_def unary_call_def binary_call_def
  evalNeg_def evalAbs_def evalExp_def evalExp2_def evalLog_def evalSqrt_def evalCbrt_def
  evalSub_def evalMult_def evalDiv_def evalRemainder_def evalPow_def
  NAN_RET_VAL_def ZERO_RET_VAL_def

lemma sizeof_ptr_real_platform: "sizeof_ptr real_platform = 8"
  by (simp add: real_platform_def)

lemma andThen_Ret [simp]: "andThen x Ret = x"
  by (cases x) auto

section \<open>Symbol tables\<close>

text \<open>
  What \<open>findSymbol\<close> computes on a table that ends: the head of the table when the
  searched name is the head's name, and \<open>NULL\<close> otherwise, whatever the other entries
  are called.
\<close>

lemma findSymbol_loop_other_name:
  assumes "table_list h c es" "length es \<le> k"
    and "syms h t = Some first" "sym_id first = Some name" "name \<noteq> ident"
  shows "findSymbol_loop k h ident (Some t) c = Ret None"
  using assms(1,2)
proof (induction es arbitrary: c k)
  case Nil
  then show ?case by simp
next
  case (Cons e es)
  from Cons.prems(1) obtain a where a: "c = Some a" "syms h a = Some e"
    "table_list h (sym_next e) es"
    by (auto split: option.splits)
  from Cons.prems(2) obtain k' where k: "k = Suc k'" "length es \<le> k'" by (cases k) auto
  from Cons.IH [OF a(3) k(2)] a k assms(3-5) show ?case
    by (simp add: sym_at_def)
qed

lemma findSymbol_head_only:
  assumes "table_list h (Some t) (first # es)" "length es < k"
    and "sym_id first = Some name"
  shows "findSymbol k h (Some ident) (Some t) = Ret (if ident = name then Some t else None)"
proof (cases "ident = name")
  case True
  from assms(2) obtain k' where "k = Suc k'" by (cases k) auto
  with assms(1,3) True show ?thesis
    by (simp add: findSymbol_def sym_at_def)
next
  case False
  from assms(1) have "syms h t = Some first" by simp
  from findSymbol_loop_other_name [OF assms(1) _ this assms(3)] False assms(2)
  show ?thesis by (simp add: findSymbol_def)
qed

text \<open>
  C1.  The table of two entries holds \<open>a = 2\<close> and then \<open>b = 1\<close>.  Searching \<open>a\<close> returns
  the head and searching a null name returns \<open>NULL\<close>, but searching \<open>b\<close>, the name of the
  second entry, returns \<open>NULL\<close> as well: the entry is not found.
\<close>

theorem findSymbol_second_entry_not_found:
  "andThen two_entry_table (\<lambda>(t, h).
     andThen (table_bindings 10 real_platform h t) (\<lambda>bindings.
     andThen (findSymbol 10 h (Some ''a'') t) (\<lambda>first.
     andThen (findSymbol 10 h (Some ''b'') t) (\<lambda>second.
     andThen (findSymbol 10 h None t) (\<lambda>null.
       Ret (t, bindings, first, second, null))))))
   = Ret (Some 4,
          [(Some ''a'', \<lparr>type = INT_TYPE, value = Fin 2\<rparr>),
           (Some ''b'', \<lparr>type = INT_TYPE, value = Fin 1\<rparr>)],
          Some 4, None, None)"
  by (simp add: build_simps run_simps)

text \<open>
  C2.  Inserting a new entry \<open>b = 3\<close> into the table of \<open>a = 2\<close> and \<open>b = 1\<close> prints nothing
  and links the new entry in front: the table then has two entries \<open>b\<close>.  Inserting a
  new entry \<open>a = 3\<close>, the name of the head, prints the warning and leaves one entry of
  each name, \<open>a\<close> with the new value.
\<close>

theorem addSymbolToTable_duplicate_behind_head:
  "insert_again ''b'' =
     Ret ([(Some ''b'', \<lparr>type = INT_TYPE, value = Fin 3\<rparr>),
           (Some ''a'', \<lparr>type = INT_TYPE, value = Fin 2\<rparr>),
           (Some ''b'', \<lparr>type = INT_TYPE, value = Fin 1\<rparr>)], [])
   \<and> insert_again ''a'' =
     Ret ([(Some ''a'', \<lparr>type = INT_TYPE, value = Fin 3\<rparr>),
           (Some ''b'', \<lparr>type = INT_TYPE, value = Fin 1\<rparr>)],
          [Warning ''Duplicate assignment to symbol''])"
  by (simp add: build_simps run_simps)

text \<open>
  C10.  Inserting a null new entry returns null, whatever the table is: the table is not
  returned.  Nothing is printed and the heap is left as it was, so a caller that stores
  the returned pointer as the head of its table loses the table without any diagnostic.
\<close>

theorem addSymbolToTable_null_new:
  "addSymbolToTable k h None (Some t) = Ret (None, h, [])
   \<and> addSymbolToTable k h None (Some t) \<noteq> Ret (Some t, h, [])"
  by (simp add: addSymbolToTable_def)

section \<open>Scope resolution\<close>

lemma evalSymbolNode_table_lookupLocal:
  assumes "table_list h t es" "\<forall>e\<in>set es. sym_id e \<noteq> None" "length es \<le> k"
  shows "evalSymbolNode_table k h ident t = Ret (map_option sym_value (lookupLocal ident es))"
  using assms
proof (induction es arbitrary: t k)
  case Nil
  then show ?case by (simp add: lookupLocal_def)
next
  case (Cons e es)
  from Cons.prems(1) obtain a where a: "t = Some a" "syms h a = Some e"
    "table_list h (sym_next e) es"
    by (auto split: option.splits)
  from Cons.prems(2) obtain name where name: "sym_id e = Some name" by auto
  from Cons.prems(3) obtain k' where k: "k = Suc k'" "length es \<le> k'" by (cases k) auto
  from Cons.prems(2) have "\<forall>e\<in>set es. sym_id e \<noteq> None" by simp
  from Cons.IH [OF a(3) this k(2)] a name k show ?case
    by (auto simp: sym_at_def lookupLocal_def)
qed

lemma evalSymbolNode_loop_resolve:
  assumes "scope_chain h c nds"
    and "list_all2 (\<lambda>nd es. table_list h (symbolTable nd) es) nds tables"
    and "\<forall>es\<in>set tables. (\<forall>e\<in>set es. sym_id e \<noteq> None) \<and> length es \<le> n"
    and "length nds \<le> k"
  shows "evalSymbolNode_loop k n M ev h ident c =
     (case resolve ident tables of
        Some e \<Rightarrow> ev (sym_value e)
      | None \<Rightarrow>
          Ret (NAN_RET_VAL M,
               (if nds = [] then [] else [Printed ''parent is null'']) @
               [Warning ''undefined symbol, nan returned'']))"
  using assms
proof (induction nds arbitrary: c tables k)
  case Nil
  then show ?case by simp
next
  case (Cons nd nds)
  from Cons.prems(1) obtain a where a: "c = Some a" "nodes h a = Some nd"
    "scope_chain h (parent nd) nds"
    by (auto split: option.splits)
  from Cons.prems(2) obtain es outer where tables: "tables = es # outer"
    "table_list h (symbolTable nd) es"
    "list_all2 (\<lambda>nd es. table_list h (symbolTable nd) es) nds outer"
    by (auto simp: list_all2_Cons1)
  from Cons.prems(3) tables(1) have es: "\<forall>e\<in>set es. sym_id e \<noteq> None" "length es \<le> n"
    and outer: "\<forall>es\<in>set outer. (\<forall>e\<in>set es. sym_id e \<noteq> None) \<and> length es \<le> n"
    by auto
  from Cons.prems(4) obtain k' where k: "k = Suc k'" "length nds \<le> k'" by (cases k) auto
  note table = evalSymbolNode_table_lookupLocal [OF tables(2) es, of ident]
  note IH = Cons.IH [OF a(3) tables(3) outer k(2)]
  from a(3) have empty: "nds = [] \<longleftrightarrow> parent nd = None"
    by (cases nds) (auto split: option.splits)
  show ?case
  proof (cases "lookupLocal ident es")
    case (Some e)
    with a k tables(1) table show ?thesis by (simp add: node_at_def)
  next
    case None
    show ?thesis
    proof (cases "resolve ident outer")
      case (Some e)
      with tables(3) have "nds \<noteq> []" by (cases nds) auto
      with empty have "parent nd \<noteq> None" by simp
      with a k tables(1) table None Some IH show ?thesis
        by (auto simp: node_at_def)
    next
      case None': None
      with a k tables(1) table None IH empty show ?thesis
        by (simp add: node_at_def)
    qed
  qed
qed

text \<open>
  C3.  Take a symbol node, the nodes \<open>nds\<close> on its way outward along \<open>parent\<close> (the node
  itself first) and their tables, none of which holds a null name.  When the first
  local match on this way is the entry \<open>e\<close>, evaluating the symbol is evaluating the value
  bound in \<open>e\<close>: an inner binding shadows an outer one, and the binding is evaluated.
\<close>

theorem scope_resolution:
  assumes "nodes h a = Some nd" and "data nd = SYM_NODE ident"
    and "scope_chain h (Some a) nds"
    and "list_all2 (\<lambda>nd es. table_list h (symbolTable nd) es) nds tables"
    and "\<forall>es\<in>set tables. (\<forall>e\<in>set es. sym_id e \<noteq> None) \<and> length es \<le> n"
    and "length nds \<le> n"
    and "resolve ident tables = Some e"
  shows "eval (Suc n) M h (Some a) = eval n M h (sym_value e)"
  using evalSymbolNode_loop_resolve [OF assms(3-6), of M "eval n M h" ident] assms(1,2,7)
  by (simp add: node_at_def evalSymbolNode_def)

text \<open>
  On the example platform, with \<open>x = 1\<close> in the outer scope and \<open>x = 2\<close> in the inner one:
  the reference inside the inner scope evaluates to \<open>{Int, 2}\<close>, the reference outside of
  it to \<open>{Int, 1}\<close>.
\<close>

theorem scope_resolution_witness:
  "andThen shadow_tree (\<lambda>(x_inner, x_outer, root, h).
     andThen (eval 5 real_platform h (Some x_inner)) (\<lambda>inner_result.
     andThen (eval 5 real_platform h (Some x_outer)) (\<lambda>outer_result.
       Ret (inner_result, outer_result))))
   = Ret ((\<lparr>type = INT_TYPE, value = Fin 2\<rparr>, []), (\<lparr>type = INT_TYPE, value = Fin 1\<rparr>, []))"
proof -
  define nd5 :: "dbl ast_node" where
    "nd5 = \<lparr>parent = Some 6, symbolTable = None, data = SYM_NODE ''x'', next = None\<rparr>"
  define nd6 :: "dbl ast_node" where
    "nd6 = \<lparr>parent = Some 8, symbolTable = Some 4, data = SCOPE_NODE (Some 5), next = Some 7\<rparr>"
  define nd7 :: "dbl ast_node" where
    "nd7 = \<lparr>parent = Some 8, symbolTable = None, data = SYM_NODE ''x'', next = None\<rparr>"
  define nd8 :: "dbl ast_node" where
    "nd8 = \<lparr>parent = Some 9, symbolTable = None, data = FUNC_NODE ADD_FUNC (Some 6),
            next = None\<rparr>"
  define nd9 :: "dbl ast_node" where
    "nd9 = \<lparr>parent = None, symbolTable = Some 2, data = SCOPE_NODE (Some 8), next = None\<rparr>"
  define e2 where "e2 = \<lparr>sym_id = Some ''x'', sym_value = Some 1, sym_next = None\<rparr>"
  define e4 where "e4 = \<lparr>sym_id = Some ''x'', sym_value = Some 3, sym_next = None\<rparr>"
  note defs = nd5_def nd6_def nd7_def nd8_def nd9_def e2_def e4_def
  obtain h where tree: "shadow_tree = Ret (5, 7, 9, h)"
    and n5: "nodes h 5 = Some nd5"
    and n7: "nodes h 7 = Some nd7"
    and chain5: "scope_chain h (Some 5) [nd5, nd6, nd8, nd9]"
    and chain7: "scope_chain h (Some 7) [nd7, nd8, nd9]"
    and tables5: "list_all2 (\<lambda>nd es. table_list h (symbolTable nd) es)
                    [nd5, nd6, nd8, nd9] [[], [e4], [], [e2]]"
    and tables7: "list_all2 (\<lambda>nd es. table_list h (symbolTable nd) es)
                    [nd7, nd8, nd9] [[], [], [e2]]"
    and v1: "eval 4 real_platform h (Some 1) = Ret (\<lparr>type = INT_TYPE, value = Fin 1\<rparr>, [])"
    and v3: "eval 4 real_platform h (Some 3) = Ret (\<lparr>type = INT_TYPE, value = Fin 2\<rparr>, [])"
    by (simp add: shadow_tree_def build_simps run_simps sizeof_ptr_real_platform defs)
  have d: "data nd5 = SYM_NODE ''x''" "data nd7 = SYM_NODE ''x''"
    by (simp_all add: defs)
  have ok5: "\<forall>es\<in>set [[], [e4], [], [e2]]. (\<forall>e\<in>set es. sym_id e \<noteq> None) \<and> length es \<le> 4"
    and ok7: "\<forall>es\<in>set [[], [], [e2]]. (\<forall>e\<in>set es. sym_id e \<noteq> None) \<and> length es \<le> 4"
    by (simp_all add: defs)
  have r5: "resolve ''x'' [[], [e4], [], [e2]] = Some e4"
    and r7: "resolve ''x'' [[], [], [e2]] = Some e2"
    by (simp_all add: lookupLocal_def defs)
  have inner: "eval 5 real_platform h (Some 5) = Ret (\<lparr>type = INT_TYPE, value = Fin 2\<rparr>, [])"
    using scope_resolution [OF n5 d(1) chain5 tables5 ok5 _ r5, of real_platform] v3
    by (simp del: eval.simps add: e4_def eval_nat_numeral)
  have outer: "eval 5 real_platform h (Some 7) = Ret (\<lparr>type = INT_TYPE, value = Fin 1\<rparr>, [])"
    using scope_resolution [OF n7 d(2) chain7 tables7 ok7 _ r7, of real_platform] v1
    by (simp del: eval.simps add: e2_def eval_nat_numeral)
  show ?thesis by (simp del: eval.simps add: tree inner outer)
qed

text \<open>
  C4.  When no table on the way outward binds the symbol's name, evaluating the symbol
  returns \<open>{Double, NaN}\<close>; the process is not left.  It prints the text
  \<open>parent is null\<close> and then the warning about the undefined symbol.
\<close>

theorem undefined_symbol:
  assumes "nodes h a = Some nd" and "data nd = SYM_NODE ident"
    and "scope_chain h (Some a) nds"
    and "list_all2 (\<lambda>nd es. table_list h (symbolTable nd) es) nds tables"
    and "\<forall>es\<in>set tables. (\<forall>e\<in>set es. \<exists>name. sym_id e = Some name \<and> name \<noteq> ident)
           \<and> length es \<le> n"
    and "length nds \<le> n"
  shows "eval (Suc n) M h (Some a) =
     Ret (\<lparr>type = DOUBLE_TYPE, value = dbl_nan M\<rparr>,
          [Printed ''parent is null'', Warning ''undefined symbol, nan returned''])"
proof -
  have none: "resolve ident tables = None"
    using assms(5)
  proof (induction tables)
    case Nil
    then show ?case by simp
  next
    case (Cons es outer)
    then have "lookupLocal ident es = None"
      by (auto simp: lookupLocal_def find_None_iff)
    with Cons show ?case by simp
  qed
  from assms(5) have ok: "\<forall>es\<in>set tables. (\<forall>e\<in>set es. sym_id e \<noteq> None) \<and> length es \<le> n"
    by fastforce
  from assms(3) have "nds \<noteq> []" by (cases nds) auto
  with evalSymbolNode_loop_resolve [OF assms(3,4) ok assms(6), of M "eval n M h" ident]
    assms(1,2) none
  show ?thesis
    by (simp add: node_at_def evalSymbolNode_def NAN_RET_VAL_def)
qed

text \<open>On the example platform: \<open>y\<close> in \<open>((let (x 1)) y)\<close>, and the whole expression.\<close>

theorem undefined_symbol_witness:
  "andThen undefined_tree (\<lambda>(y, root, h).
     andThen (eval 3 real_platform h (Some y)) (\<lambda>symbol_result.
     andThen (eval 4 real_platform h (Some root)) (\<lambda>root_result.
       Ret (symbol_result, root_result))))
   = Ret ((\<lparr>type = DOUBLE_TYPE, value = NaN\<rparr>,
           [Printed ''parent is null'', Warning ''undefined symbol, nan returned'']),
          (\<lparr>type = DOUBLE_TYPE, value = NaN\<rparr>,
           [Printed ''parent is null'', Warning ''undefined symbol, nan returned'']))"
proof -
  define nd3 :: "dbl ast_node" where
    "nd3 = \<lparr>parent = Some 4, symbolTable = None, data = SYM_NODE ''y'', next = None\<rparr>"
  define nd4 :: "dbl ast_node" where
    "nd4 = \<lparr>parent = None, symbolTable = Some 2, data = SCOPE_NODE (Some 3), next = None\<rparr>"
  define e2 where "e2 = \<lparr>sym_id = Some ''x'', sym_value = Some 1, sym_next = None\<rparr>"
  note defs = nd3_def nd4_def e2_def
  obtain h where tree: "undefined_tree = Ret (3, 4, h)"
    and n3: "nodes h 3 = Some nd3"
    and n4: "nodes h 4 = Some nd4"
    and chain: "scope_chain h (Some 3) [nd3, nd4]"
    and tables: "list_all2 (\<lambda>nd es. table_list h (symbolTable nd) es) [nd3, nd4] [[], [e2]]"
    by (simp add: undefined_tree_def build_simps run_simps sizeof_ptr_real_platform defs)
  have d: "data nd3 = SYM_NODE ''y''" by (simp add: defs)
  have unbound: "\<forall>es\<in>set [[], [e2]].
      (\<forall>e\<in>set es. \<exists>name. sym_id e = Some name \<and> name \<noteq> ''y'') \<and> length es \<le> 2"
    by (simp add: defs)
  have nan: "dbl_nan real_platform = NaN" by (simp add: real_platform_def)
  have sym: "eval 3 real_platform h (Some 3) =
     Ret (\<lparr>type = DOUBLE_TYPE, value = NaN\<rparr>,
          [Printed ''parent is null'', Warning ''undefined symbol, nan returned''])"
    using undefined_symbol [OF n3 d chain tables unbound, of real_platform] nan
    by (simp del: eval.simps add: eval_nat_numeral)
  have "eval 4 real_platform h (Some 4) = eval 3 real_platform h (Some 3)"
    using n4 by (simp add: eval_nat_numeral node_at_def evalScope_def nd4_def)
  with sym have root: "eval 4 real_platform h (Some 4) =
     Ret (\<lparr>type = DOUBLE_TYPE, value = NaN\<rparr>,
          [Printed ''parent is null'', Warning ''undefined symbol, nan returned''])"
    by simp
  show ?thesis by (simp del: eval.simps add: tree sym root)
qed

section \<open>Operand lists\<close>

lemma operand_list_unique:
  "operand_list h p as \<Longrightarrow> operand_list h p bs \<Longrightarrow> as = bs"
proof (induction as arbitrary: p bs)
  case Nil
  then show ?case by (cases bs) auto
next
  case (Cons a as)
  then show ?case by (cases bs) (auto split: option.splits)
qed

lemma operand_list_suffix:
  fixes h :: "'d heap"
  shows "operand_list h p (us @ a # vs) \<Longrightarrow> operand_list h (Some a) (a # vs)"
proof (induction us arbitrary: p)
  case Nil
  then show ?case by simp
next
  case (Cons u us)
  from Cons.prems obtain nd :: "'d ast_node" where
    "operand_list h (next nd) (us @ a # vs)"
    by (auto split: option.splits)
  then show ?case by (rule Cons.IH)
qed

text \<open>A list that ends does not come back to its first node.\<close>

lemma operand_list_distinct_head:
  assumes "operand_list h (Some p) (p # as)"
  shows "p \<notin> set as"
proof
  assume "p \<in> set as"
  then obtain us vs where "as = us @ p # vs" by (auto simp: in_set_conv_decomp)
  with assms have "operand_list h (Some p) (p # vs)"
    using operand_list_suffix [of h "Some p" "p # us" p vs] by simp
  with assms have "p # vs = p # as" using operand_list_unique by blast
  with \<open>as = us @ p # vs\<close> show False by simp
qed

section \<open>Two-operand functions\<close>

lemma binary_call_two:
  assumes "nodes h p = Some first" "next first = Some q" "nodes h q = Some second"
    and "ev (Some p) = Ret (firstOp, out1)" "ev (Some q) = Ret (secondOP, out2)"
  shows "binary_call name operation M ev h (Some p) =
     Ret (\<lparr>type = (if type firstOp = DOUBLE_TYPE \<or> type secondOP = DOUBLE_TYPE
                  then DOUBLE_TYPE else INT_TYPE),
           value = operation (value firstOp) (value secondOP)\<rparr>,
          out1 @ out2 @
          (if next second \<noteq> None
           then [Warning (name @ '' called with too many operands, ignoring extra'')] else []))"
  using assms by (simp add: binary_call_def node_at_def)

lemma evalFuncNode_binary:
  assumes "nodes h a = Some nd" "data nd = FUNC_NODE func oplist"
    and "binary_operation M func = Some operation"
  shows "evalFuncNode k M ev h (Some a) =
           binary_call (binary_name func) operation M ev h oplist"
  using assms
  by (cases func)
     (auto simp: evalFuncNode_def node_at_def binary_operation_def binary_name_def
        evalSub_def evalMult_def evalDiv_def evalRemainder_def evalPow_def)

lemma binary_call_cut:
  assumes "nodes h p = Some first" "next first = Some q" "nodes h q = Some second"
    and "next second \<noteq> None" and "p \<noteq> q"
    and "ev' (Some p) = ev (Some p)" "ev' (Some q) = ev (Some q)"
  shows "binary_call name operation M ev h (Some p) =
     and_warn (name @ '' called with too many operands, ignoring extra'')
       (binary_call name operation M ev' (cut_after h q) (Some p))"
  using assms
  by (cases "ev (Some p)"; cases "ev (Some q)")
     (auto simp: binary_call_def node_at_def cut_after_def and_warn_def split: prod.splits)

lemma binary_call_evaluator:
  assumes "nodes h p = Some first"
    and "ev' (Some p) = ev (Some p)" "ev' (next first) = ev (next first)"
  shows "binary_call name operation M ev' h (Some p) = binary_call name operation M ev h (Some p)"
  using assms by (cases "next first") (simp_all add: binary_call_def node_at_def)

text \<open>
  C5.  A call of sub, mult, div, remainder or pow on exactly two operands that evaluate
  to \<open>firstOp\<close> and \<open>secondOP\<close> returns the type Double if either type is Double and the
  type Int otherwise (so Int if both are Int), the value the function's operation gives
  on the two values, and what the two evaluations printed.
\<close>

theorem binary_promotion:
  assumes "nodes h a = Some nd" and "data nd = FUNC_NODE func (Some p)"
    and "binary_operation M func = Some operation"
    and "operand_list h (Some p) [p, q]"
    and "eval n M h (Some p) = Ret (firstOp, out1)"
    and "eval n M h (Some q) = Ret (secondOP, out2)"
  shows "eval (Suc n) M h (Some a) =
     Ret (\<lparr>type = (if type firstOp = DOUBLE_TYPE \<or> type secondOP = DOUBLE_TYPE
                  then DOUBLE_TYPE else INT_TYPE),
           value = operation (value firstOp) (value secondOP)\<rparr>,
          out1 @ out2)"
proof -
  from assms(4) obtain first second where
    first: "nodes h p = Some first" "next first = Some q"
    and second: "nodes h q = Some second" "next second = None"
    by (auto split: option.splits)
  from evalFuncNode_binary [OF assms(1-3)] have
    "evalFuncNode n M (eval n M h) h (Some a) =
       binary_call (binary_name func) operation M (eval n M h) h (Some p)" .
  with binary_call_two [OF first second(1) assms(5,6)] second(2) assms(1,2)
  show ?thesis by (simp add: node_at_def)
qed

text \<open>
  On the example platform: sub(Int 5, Int 2) is \<open>{Int, 3}\<close> and sub(Int 5, Double 2.5) is
  \<open>{Double, 2.5}\<close>.
\<close>

theorem binary_promotion_witness:
  "andThen (call_tree SUB_FUNC [(Fin 5, INT_TYPE), (Fin 2, INT_TYPE)])
     (\<lambda>(root, h). eval 2 real_platform h (Some root))
     = Ret (\<lparr>type = INT_TYPE, value = Fin 3\<rparr>, [])
   \<and> andThen (call_tree SUB_FUNC [(Fin 5, INT_TYPE), (Fin 2.5, DOUBLE_TYPE)])
     (\<lambda>(root, h). eval 2 real_platform h (Some root))
     = Ret (\<lparr>type = DOUBLE_TYPE, value = Fin 2.5\<rparr>, [])"
proof -
  have op: "binary_operation real_platform SUB_FUNC = Some (dbl_sub real_platform)"
    by (simp add: binary_operation_def)
  have sub: "dbl_sub real_platform (Fin 5) (Fin 2) = Fin 3"
    "dbl_sub real_platform (Fin 5) (Fin 2.5) = Fin 2.5"
    by (simp_all add: real_platform_def)
  have "andThen (call_tree SUB_FUNC [(Fin 5, INT_TYPE), (Fin 2, INT_TYPE)])
     (\<lambda>(root, h). eval 2 real_platform h (Some root))
     = Ret (\<lparr>type = INT_TYPE, value = Fin 3\<rparr>, [])"
  proof -
    obtain h where tree: "call_tree SUB_FUNC [(Fin 5, INT_TYPE), (Fin 2, INT_TYPE)] = Ret (3, h)"
      and n3: "nodes h 3 = Some \<lparr>parent = None, symbolTable = None,
                 data = FUNC_NODE SUB_FUNC (Some 2), next = None\<rparr>"
      and ops: "operand_list h (Some 2) [2, 1]"
      and e1: "eval 1 real_platform h (Some 2) = Ret (\<lparr>type = INT_TYPE, value = Fin 5\<rparr>, [])"
      and e2: "eval 1 real_platform h (Some 1) = Ret (\<lparr>type = INT_TYPE, value = Fin 2\<rparr>, [])"
      by (simp add: build_simps run_simps)
    from binary_promotion [OF n3 _ op ops e1 e2] tree sub show ?thesis
      by (simp del: eval.simps add: eval_nat_numeral)
  qed
  moreover
  have "andThen (call_tree SUB_FUNC [(Fin 5, INT_TYPE), (Fin 2.5, DOUBLE_TYPE)])
     (\<lambda>(root, h). eval 2 real_platform h (Some root))
     = Ret (\<lparr>type = DOUBLE_TYPE, value = Fin 2.5\<rparr>, [])"
  proof -
    obtain h where tree:
        "call_tree SUB_FUNC [(Fin 5, INT_TYPE), (Fin 2.5, DOUBLE_TYPE)] = Ret (3, h)"
      and n3: "nodes h 3 = Some \<lparr>parent = None, symbolTable = None,
                 data = FUNC_NODE SUB_FUNC (Some 2), next = None\<rparr>"
      and ops: "operand_list h (Some 2) [2, 1]"
      and e1: "eval 1 real_platform h (Some 2) = Ret (\<lparr>type = INT_TYPE, value = Fin 5\<rparr>, [])"
      and e2: "eval 1 real_platform h (Some 1)
                 = Ret (\<lparr>type = DOUBLE_TYPE, value = Fin 2.5\<rparr>, [])"
      by (simp add: build_simps run_simps)
    from binary_promotion [OF n3 _ op ops e1 e2] tree sub show ?thesis
      by (simp del: eval.simps add: eval_nat_numeral)
  qed
  ultimately show ?thesis by simp
qed

text \<open>
  C8.  A call of sub, mult, div, remainder or pow on more than two operands returns
  what the same call returns on the heap in which the operand list ends after the second
  operand, and then prints one warning; the first two operands are taken to evaluate in
  that heap as they do in the given one.  No other operand is evaluated: the call
  returns the same with any evaluator in the place of \<open>eval\<close> that agrees with \<open>eval\<close> on
  the first two operands.
\<close>

theorem extra_operands_ignored:
  assumes "nodes h a = Some nd" and "data nd = FUNC_NODE func (Some p)"
    and "binary_operation M func = Some operation"
    and "operand_list h (Some p) (p # q # r # rest)"
    and "eval n M (cut_after h q) (Some p) = eval n M h (Some p)"
    and "eval n M (cut_after h q) (Some q) = eval n M h (Some q)"
  shows "eval (Suc n) M h (Some a) =
           and_warn (binary_name func @ '' called with too many operands, ignoring extra'')
             (eval (Suc n) M (cut_after h q) (Some a))
       \<and> (\<forall>ev. ev (Some p) = eval n M h (Some p) \<and> ev (Some q) = eval n M h (Some q) \<longrightarrow>
            evalFuncNode n M ev h (Some a) = eval (Suc n) M h (Some a))"
proof
  from assms(4) obtain first second where
    first: "nodes h p = Some first" "next first = Some q"
    and second: "nodes h q = Some second" "next second = Some r"
    by (auto split: option.splits)
  from operand_list_distinct_head [OF assms(4)] have "p \<noteq> q" by auto
  let ?h = "cut_after h q"
  obtain nd' where nd': "nodes ?h a = Some nd'" "data nd' = FUNC_NODE func (Some p)"
    using assms(1,2) second(1) by (cases "a = q") (auto simp: cut_after_def)
  have "binary_call (binary_name func) operation M (eval n M h) h (Some p) =
     and_warn (binary_name func @ '' called with too many operands, ignoring extra'')
       (binary_call (binary_name func) operation M (eval n M ?h) ?h (Some p))"
    using first second \<open>p \<noteq> q\<close> assms(5,6) by (intro binary_call_cut) auto
  with evalFuncNode_binary [OF assms(1-3)] evalFuncNode_binary [OF nd' assms(3)]
    assms(1,2) nd'
  show "eval (Suc n) M h (Some a) =
           and_warn (binary_name func @ '' called with too many operands, ignoring extra'')
             (eval (Suc n) M (cut_after h q) (Some a))"
    by (simp add: node_at_def)
  show "\<forall>ev. ev (Some p) = eval n M h (Some p) \<and> ev (Some q) = eval n M h (Some q) \<longrightarrow>
            evalFuncNode n M ev h (Some a) = eval (Suc n) M h (Some a)"
  proof (intro allI impI)
    fix ev
    assume "ev (Some p) = eval n M h (Some p) \<and> ev (Some q) = eval n M h (Some q)"
    with first have "binary_call (binary_name func) operation M ev h (Some p) =
        binary_call (binary_name func) operation M (eval n M h) h (Some p)"
      by (intro binary_call_evaluator) auto
    with evalFuncNode_binary [OF assms(1-3)] assms(1,2)
    show "evalFuncNode n M ev h (Some a) = eval (Suc n) M h (Some a)"
      by (simp add: node_at_def)
  qed
qed

text \<open>
  On the example platform: sub(Int 5, Int 2, Double 7.5) is \<open>{Int, 3}\<close> after one
  warning, also with an evaluator that leaves the process on every node but the first
  two operands.
\<close>

theorem extra_operands_ignored_witness:
  "andThen (call_tree SUB_FUNC [(Fin 5, INT_TYPE), (Fin 2, INT_TYPE), (Fin 7.5, DOUBLE_TYPE)])
     (\<lambda>(root, h).
        andThen (eval 2 real_platform h (Some root)) (\<lambda>result.
        andThen (evalFuncNode 1 real_platform
                   (\<lambda>node. if node = Some 3 \<or> node = Some 2 then eval 1 real_platform h node
                           else Exit ''another operand is evaluated'') h (Some root))
          (\<lambda>result'. Ret (result, result'))))
     = Ret ((\<lparr>type = INT_TYPE, value = Fin 3\<rparr>,
             [Warning ''sub called with too many operands, ignoring extra'']),
            (\<lparr>type = INT_TYPE, value = Fin 3\<rparr>,
             [Warning ''sub called with too many operands, ignoring extra'']))"
proof -
  have op: "binary_operation real_platform SUB_FUNC = Some (dbl_sub real_platform)"
    by (simp add: binary_operation_def)
  obtain h where tree:
      "call_tree SUB_FUNC [(Fin 5, INT_TYPE), (Fin 2, INT_TYPE), (Fin 7.5, DOUBLE_TYPE)]
         = Ret (4, h)"
    and n4: "nodes h 4 = Some \<lparr>parent = None, symbolTable = None,
               data = FUNC_NODE SUB_FUNC (Some 3), next = None\<rparr>"
    and ops: "operand_list h (Some 3) [3, 2, 1]"
    and e1: "eval 1 real_platform (cut_after h 2) (Some 3) = eval 1 real_platform h (Some 3)"
    and e2: "eval 1 real_platform (cut_after h 2) (Some 2) = eval 1 real_platform h (Some 2)"
    and two: "eval 2 real_platform (cut_after h 2) (Some 4)
                = Ret (\<lparr>type = INT_TYPE, value = Fin 3\<rparr>, [])"
    by (simp add: build_simps run_simps cut_after_def real_platform_def)
  note both = extra_operands_ignored [OF n4 _ op ops e1 e2]
  from both two have result: "eval 2 real_platform h (Some 4) =
      Ret (\<lparr>type = INT_TYPE, value = Fin 3\<rparr>,
           [Warning ''sub called with too many operands, ignoring extra''])"
    by (simp del: eval.simps add: eval_nat_numeral and_warn_def binary_name_def)
  let ?ev = "\<lambda>node. if node = Some 3 \<or> node = Some 2 then eval 1 real_platform h node
                    else Exit ''another operand is evaluated''"
  from both have "evalFuncNode 1 real_platform ?ev h (Some 4) = eval (Suc 1) real_platform h (Some 4)"
    by (simp del: eval.simps)
  with result have "evalFuncNode 1 real_platform ?ev h (Some 4) =
      Ret (\<lparr>type = INT_TYPE, value = Fin 3\<rparr>,
           [Warning ''sub called with too many operands, ignoring extra''])"
    by (simp del: eval.simps add: eval_nat_numeral)
  with result tree show ?thesis by (simp del: eval.simps)
qed

section \<open>The function add\<close>

lemma evalAdd_loop_fold:
  assumes "operand_list h p as" "list_all2 (\<lambda>a r. ev (Some a) = Ret r) as rs"
    and "length as \<le> k"
  shows "evalAdd_loop k M ev h p result out =
     Ret (foldl (add_step M) result (map fst rs), out @ concat (map snd rs))"
  using assms
proof (induction as arbitrary: p rs k result out)
  case Nil
  then show ?case by simp
next
  case (Cons a as)
  from Cons.prems(2) obtain r rs' where rs: "rs = r # rs'" "ev (Some a) = Ret r"
    "list_all2 (\<lambda>a r. ev (Some a) = Ret r) as rs'"
    by (auto simp: list_all2_Cons1)
  from Cons.prems(1) obtain nd where nd: "p = Some a" "nodes h a = Some nd"
    "operand_list h (next nd) as"
    by (auto split: option.splits)
  from Cons.prems(3) obtain k' where k: "k = Suc k'" "length as \<le> k'"
    by (cases k) auto
  show ?case
    using rs nd k Cons.IH [OF nd(3) rs(3) k(2)]
    by (cases r) (simp add: node_at_def add_step_def)
qed

lemma add_step_value:
  "value (foldl (add_step M) result nums) = foldl (dbl_add M) (value result) (map value nums)"
  by (induction nums arbitrary: result) (simp_all add: add_step_def)

lemma add_step_type:
  "nums \<noteq> [] \<Longrightarrow> type (foldl (add_step M) result nums) = type (last nums)"
  by (induction nums arbitrary: result) (simp_all add: add_step_def)

text \<open>
  C6.  A call of add on the operands at \<open>as\<close>, which evaluate to \<open>rs\<close>: with no operand it
  returns \<open>{Int, 0}\<close> after a warning; otherwise its value is the sum of the values from
  left to right, starting from 0, its type is the type of the last operand, and it
  prints what the operands printed.
\<close>

theorem add_sum_last_type:
  assumes "nodes h a = Some nd" and "data nd = FUNC_NODE ADD_FUNC oplist"
    and "operand_list h oplist as"
    and "list_all2 (\<lambda>b r. eval n M h (Some b) = Ret r) as rs"
    and "length as \<le> n"
  shows "eval (Suc n) M h (Some a) =
     (if as = []
      then Ret (ZERO_RET_VAL M, [Warning ''add called with no operands, 0 returned''])
      else Ret (\<lparr>type = type (fst (last rs)),
                 value = foldl (dbl_add M) (dbl_zero M) (map (value \<circ> fst) rs)\<rparr>,
                concat (map snd rs)))"
proof (cases as)
  case Nil
  with assms(1-3) show ?thesis
    by (simp add: node_at_def evalFuncNode_def evalAdd_def)
next
  case (Cons b bs)
  with assms(3) have oplist: "oplist = Some b" by simp
  from Cons assms(4) have rs: "rs \<noteq> []" by auto
  let ?r = "foldl (add_step M) \<lparr>type = indeterminate M, value = dbl_zero M\<rparr> (map fst rs)"
  have "?r = \<lparr>type = type ?r, value = value ?r\<rparr>" by simp
  also have "type ?r = type (fst (last rs))"
    using rs by (simp add: add_step_type last_map)
  also have "value ?r = foldl (dbl_add M) (dbl_zero M) (map (value \<circ> fst) rs)"
    by (simp add: add_step_value)
  finally have r: "?r = \<lparr>type = type (fst (last rs)),
     value = foldl (dbl_add M) (dbl_zero M) (map (value \<circ> fst) rs)\<rparr>" .
  from evalAdd_loop_fold [OF assms(3,4,5), of M _ "[]"] oplist Cons assms(1,2) r
  show ?thesis
    by (simp add: node_at_def evalFuncNode_def evalAdd_def)
qed

text \<open>
  On the example platform: add(Int 3, Int 4, Double 1.5) is \<open>{Double, 8.5}\<close>,
  add(Double 1.5, Int 3) is \<open>{Int, 4.5}\<close>, and add() is \<open>{Int, 0}\<close> after a warning.
\<close>

theorem add_sum_last_type_witness:
  "andThen (call_tree ADD_FUNC [(Fin 3, INT_TYPE), (Fin 4, INT_TYPE), (Fin 1.5, DOUBLE_TYPE)])
     (\<lambda>(root, h). eval 4 real_platform h (Some root))
     = Ret (\<lparr>type = DOUBLE_TYPE, value = Fin 8.5\<rparr>, [])
   \<and> andThen (call_tree ADD_FUNC [(Fin 1.5, DOUBLE_TYPE), (Fin 3, INT_TYPE)])
     (\<lambda>(root, h). eval 3 real_platform h (Some root))
     = Ret (\<lparr>type = INT_TYPE, value = Fin 4.5\<rparr>, [])
   \<and> andThen (call_tree ADD_FUNC [])
     (\<lambda>(root, h). eval 1 real_platform h (Some root))
     = Ret (\<lparr>type = INT_TYPE, value = Fin 0\<rparr>,
            [Warning ''add called with no operands, 0 returned''])"
proof -
  have "andThen (call_tree ADD_FUNC [(Fin 3, INT_TYPE), (Fin 4, INT_TYPE), (Fin 1.5, DOUBLE_TYPE)])
     (\<lambda>(root, h). eval 4 real_platform h (Some root))
     = Ret (\<lparr>type = DOUBLE_TYPE, value = Fin 8.5\<rparr>, [])"
  proof -
    obtain h where tree:
        "call_tree ADD_FUNC [(Fin 3, INT_TYPE), (Fin 4, INT_TYPE), (Fin 1.5, DOUBLE_TYPE)]
           = Ret (4, h)"
      and n4: "nodes h 4 = Some \<lparr>parent = None, symbolTable = None,
                 data = FUNC_NODE ADD_FUNC (Some 3), next = None\<rparr>"
      and ops: "operand_list h (Some 3) [3, 2, 1]"
      and evs: "list_all2 (\<lambda>b r. eval 3 real_platform h (Some b) = Ret r) [3, 2, 1]
                 [(\<lparr>type = INT_TYPE, value = Fin 3\<rparr>, []),
                  (\<lparr>type = INT_TYPE, value = Fin 4\<rparr>, []),
                  (\<lparr>type = DOUBLE_TYPE, value = Fin 1.5\<rparr>, [])]"
      by (simp add: build_simps run_simps)
    from add_sum_last_type [OF n4 _ ops evs] tree show ?thesis
      by (simp del: eval.simps add: eval_nat_numeral real_platform_def)
  qed
  moreover
  have "andThen (call_tree ADD_FUNC [(Fin 1.5, DOUBLE_TYPE), (Fin 3, INT_TYPE)])
     (\<lambda>(root, h). eval 3 real_platform h (Some root))
     = Ret (\<lparr>type = INT_TYPE, value = Fin 4.5\<rparr>, [])"
  proof -
    obtain h where tree:
        "call_tree ADD_FUNC [(Fin 1.5, DOUBLE_TYPE), (Fin 3, INT_TYPE)] = Ret (3, h)"
      and n3: "nodes h 3 = Some \<lparr>parent = None, symbolTable = None,
                 data = FUNC_NODE ADD_FUNC (Some 2), next = None\<rparr>"
      and ops: "operand_list h (Some 2) [2, 1]"
      and evs: "list_all2 (\<lambda>b r. eval 2 real_platform h (Some b) = Ret r) [2, 1]
                 [(\<lparr>type = DOUBLE_TYPE, value = Fin 1.5\<rparr>, []),
                  (\<lparr>type = INT_TYPE, value = Fin 3\<rparr>, [])]"
      by (simp add: build_simps run_simps)
    from add_sum_last_type [OF n3 _ ops evs] tree show ?thesis
      by (simp del: eval.simps add: eval_nat_numeral real_platform_def)
  qed
  moreover
  have "andThen (call_tree ADD_FUNC [])
     (\<lambda>(root, h). eval 1 real_platform h (Some root))
     = Ret (\<lparr>type = INT_TYPE, value = Fin 0\<rparr>,
            [Warning ''add called with no operands, 0 returned''])"
  proof -
    obtain h where tree: "call_tree ADD_FUNC [] = Ret (1, h)"
      and n1: "nodes h 1 = Some \<lparr>parent = None, symbolTable = None,
                 data = FUNC_NODE ADD_FUNC None, next = None\<rparr>"
      by (simp add: build_simps run_simps)
    have ops: "operand_list h None []" by simp
    from add_sum_last_type [OF n1 _ ops, of 0 real_platform "[]"] tree show ?thesis
      by (simp del: eval.simps add: ZERO_RET_VAL_def real_platform_def)
  qed
  ultimately show ?thesis by simp
qed

section \<open>The functions min and max\<close>

text \<open>
  With one operand, \<open>evalMax\<close> and \<open>evalMin\<close> return the operand's value under the type of
  the local \<open>result\<close>, which was never assigned.
\<close>

lemma evalMax_one_operand:
  assumes "nodes h p = Some first" "next first = None" "ev (Some p) = Ret (num, out)"
  shows "evalMax k M ev h (Some p) = Ret (\<lparr>type = indeterminate M, value = value num\<rparr>, out)"
  using assms by (simp add: evalMax_def node_at_def)

lemma evalMin_one_operand:
  assumes "nodes h p = Some first" "next first = None" "ev (Some p) = Ret (num, out)"
  shows "evalMin k M ev h (Some p) = Ret (\<lparr>type = indeterminate M, value = value num\<rparr>, out)"
  using assms by (simp add: evalMin_def node_at_def)

text \<open>
  C7.  Whatever the value \<open>t\<close> of a type that was never assigned: max(Int 1) and
  min(Int 1) return the type \<open>t\<close>, not Int, and max(Double 3.5, Int 1) returns the type
  \<open>t\<close>, not the type of its maximum.  max(Int 1, Double 3.5, Int 2) is \<open>{Double, 3.5}\<close>
  and max() is \<open>{Int, 0}\<close> after a warning.
\<close>

theorem max_min_first_operand_type_lost:
  "andThen (call_tree MAX_FUNC [(Fin 1, INT_TYPE)])
     (\<lambda>(root, h). eval 2 (real_platform\<lparr>indeterminate := t\<rparr>) h (Some root))
     = Ret (\<lparr>type = t, value = Fin 1\<rparr>, [])
   \<and> andThen (call_tree MIN_FUNC [(Fin 1, INT_TYPE)])
     (\<lambda>(root, h). eval 2 (real_platform\<lparr>indeterminate := t\<rparr>) h (Some root))
     = Ret (\<lparr>type = t, value = Fin 1\<rparr>, [])
   \<and> andThen (call_tree MAX_FUNC [(Fin 3.5, DOUBLE_TYPE), (Fin 1, INT_TYPE)])
     (\<lambda>(root, h). eval 3 (real_platform\<lparr>indeterminate := t\<rparr>) h (Some root))
     = Ret (\<lparr>type = t, value = Fin 3.5\<rparr>, [])
   \<and> andThen (call_tree MAX_FUNC [(Fin 1, INT_TYPE), (Fin 3.5, DOUBLE_TYPE), (Fin 2, INT_TYPE)])
     (\<lambda>(root, h). eval 4 (real_platform\<lparr>indeterminate := t\<rparr>) h (Some root))
     = Ret (\<lparr>type = DOUBLE_TYPE, value = Fin 3.5\<rparr>, [])
   \<and> andThen (call_tree MAX_FUNC [])
     (\<lambda>(root, h). eval 1 (real_platform\<lparr>indeterminate := t\<rparr>) h (Some root))
     = Ret (\<lparr>type = INT_TYPE, value = Fin 0\<rparr>,
            [Warning ''max called with no operands, 0 returned''])"
  by (simp add: build_simps run_simps real_platform_def)

section \<open>One-operand functions\<close>

lemma unary_call_one:
  assumes "nodes h p = Some first" "ev (Some p) = Ret (num, out)"
  shows "unary_call name compute M ev h (Some p) =
     Ret (compute num,
          (if next first \<noteq> None then [Warning (name @ '' called with extra operands'')]
           else []) @ out)"
  using assms by (simp add: unary_call_def node_at_def)

text \<open>
  C9.  A call of exp2 on one operand that evaluates to \<open>num\<close> returns the value
  \<open>exp2(num.value)\<close>; its type is Double when this value is less than 0 and the type of
  \<open>num\<close> otherwise.  The same call of exp, log, sqrt or cbrt returns the type Double.
\<close>

theorem exp2_type_rule:
  assumes "nodes h a = Some nd" and "data nd = FUNC_NODE func (Some p)"
    and "operand_list h (Some p) [p]"
    and "eval n M h (Some p) = Ret (num, out)"
  shows "(func = EXP2_FUNC \<longrightarrow>
            eval (Suc n) M h (Some a) =
              Ret (\<lparr>type = (if dbl_less M (m_exp2 M (value num)) (dbl_zero M)
                           then DOUBLE_TYPE else type num),
                    value = m_exp2 M (value num)\<rparr>, out))
       \<and> (func = EXP_FUNC \<longrightarrow>
            eval (Suc n) M h (Some a) =
              Ret (\<lparr>type = DOUBLE_TYPE, value = m_exp M (value num)\<rparr>, out))
       \<and> (func = LOG_FUNC \<longrightarrow>
            eval (Suc n) M h (Some a) =
              Ret (\<lparr>type = DOUBLE_TYPE, value = m_log M (value num)\<rparr>, out))
       \<and> (func = SQRT_FUNC \<longrightarrow>
            eval (Suc n) M h (Some a) =
              Ret (\<lparr>type = DOUBLE_TYPE, value = m_sqrt M (value num)\<rparr>, out))
       \<and> (func = CBRT_FUNC \<longrightarrow>
            eval (Suc n) M h (Some a) =
              Ret (\<lparr>type = DOUBLE_TYPE, value = m_cbrt M (value num)\<rparr>, out))"
proof -
  from assms(3) obtain first where first: "nodes h p = Some first" "next first = None"
    by (auto split: option.splits)
  note call = unary_call_one [where ev = "eval n M h", OF first(1) assms(4)]
  from assms(1,2) first(2) show ?thesis
    by (simp add: node_at_def evalFuncNode_def evalExp2_def evalExp_def evalLog_def
        evalSqrt_def evalCbrt_def call Let_def)
qed

text \<open>
  On the example platform: exp2(Int 3) is \<open>{Int, 8}\<close>, and exp(Int 0), log(Int 1),
  sqrt(Int 4) and cbrt(Int 1) are \<open>{Double, 1}\<close>, \<open>{Double, 0}\<close>, \<open>{Double, 2}\<close> and
  \<open>{Double, 1}\<close>.
\<close>

theorem exp2_type_rule_witness:
  "andThen (call_tree EXP2_FUNC [(Fin 3, INT_TYPE)])
     (\<lambda>(root, h). eval 2 real_platform h (Some root))
     = Ret (\<lparr>type = INT_TYPE, value = Fin 8\<rparr>, [])
   \<and> andThen (call_tree EXP_FUNC [(Fin 0, INT_TYPE)])
     (\<lambda>(root, h). eval 2 real_platform h (Some root))
     = Ret (\<lparr>type = DOUBLE_TYPE, value = Fin 1\<rparr>, [])
   \<and> andThen (call_tree LOG_FUNC [(Fin 1, INT_TYPE)])
     (\<lambda>(root, h). eval 2 real_platform h (Some root))
     = Ret (\<lparr>type = DOUBLE_TYPE, value = Fin 0\<rparr>, [])
   \<and> andThen (call_tree SQRT_FUNC [(Fin 4, INT_TYPE)])
     (\<lambda>(root, h). eval 2 real_platform h (Some root))
     = Ret (\<lparr>type = DOUBLE_TYPE, value = Fin 2\<rparr>, [])
   \<and> andThen (call_tree CBRT_FUNC [(Fin 1, INT_TYPE)])
     (\<lambda>(root, h). eval 2 real_platform h (Some root))
     = Ret (\<lparr>type = DOUBLE_TYPE, value = Fin 1\<rparr>, [])"
proof -
  have m: "m_exp2 real_platform (Fin 3) = Fin 8" "m_exp real_platform (Fin 0) = Fin 1"
    "m_log real_platform (Fin 1) = Fin 0" "m_sqrt real_platform (Fin 4) = Fin 2"
    "m_cbrt real_platform (Fin 1) = Fin 1"
    "\<not> dbl_less real_platform (Fin 8) (dbl_zero real_platform)"
    by (simp_all add: real_platform_def)
  have call: "andThen (call_tree func [(x, INT_TYPE)])
       (\<lambda>(root, h). eval 2 real_platform h (Some root)) = Ret (r, [])"
    if r: "\<And>h. nodes h 2 = Some \<lparr>parent = None, symbolTable = None,
               data = FUNC_NODE func (Some 1), next = None\<rparr> \<Longrightarrow>
             operand_list h (Some 1) [1] \<Longrightarrow>
             eval 1 real_platform h (Some 1) = Ret (\<lparr>type = INT_TYPE, value = x\<rparr>, []) \<Longrightarrow>
             eval 2 real_platform h (Some 2) = Ret (r, [])"
    for func x r
  proof -
    obtain h where tree: "call_tree func [(x, INT_TYPE)] = Ret (2, h)"
      and n2: "nodes h 2 = Some \<lparr>parent = None, symbolTable = None,
                 data = FUNC_NODE func (Some 1), next = None\<rparr>"
      and ops: "operand_list h (Some 1) [1]"
      and e1: "eval 1 real_platform h (Some 1) = Ret (\<lparr>type = INT_TYPE, value = x\<rparr>, [])"
      by (simp add: build_simps run_simps)
    from r [OF n2 ops e1] tree show ?thesis by (simp del: eval.simps)
  qed
  have "andThen (call_tree EXP2_FUNC [(Fin 3, INT_TYPE)])
     (\<lambda>(root, h). eval 2 real_platform h (Some root))
     = Ret (\<lparr>type = INT_TYPE, value = Fin 8\<rparr>, [])"
    using exp2_type_rule [where func = EXP2_FUNC and M = real_platform and n = 1] m
    by (intro call) (simp del: eval.simps add: eval_nat_numeral)
  moreover
  have "andThen (call_tree EXP_FUNC [(Fin 0, INT_TYPE)])
     (\<lambda>(root, h). eval 2 real_platform h (Some root))
     = Ret (\<lparr>type = DOUBLE_TYPE, value = Fin 1\<rparr>, [])"
    using exp2_type_rule [where func = EXP_FUNC and M = real_platform and n = 1] m
    by (intro call) (simp del: eval.simps add: eval_nat_numeral)
  moreover
  have "andThen (call_tree LOG_FUNC [(Fin 1, INT_TYPE)])
     (\<lambda>(root, h). eval 2 real_platform h (Some root))
     = Ret (\<lparr>type = DOUBLE_TYPE, value = Fin 0\<rparr>, [])"
    using exp2_type_rule [where func = LOG_FUNC and M = real_platform and n = 1] m
    by (intro call) (simp del: eval.simps add: eval_nat_numeral)
  moreover
  have "andThen (call_tree SQRT_FUNC [(Fin 4, INT_TYPE)])
     (\<lambda>(root, h). eval 2 real_platform h (Some root))
     = Ret (\<lparr>type = DOUBLE_TYPE, value = Fin 2\<rparr>, [])"
    using exp2_type_rule [where func = SQRT_FUNC and M = real_platform and n = 1] m
    by (intro call) (simp del: eval.simps add: eval_nat_numeral)
  moreover
  have "andThen (call_tree CBRT_FUNC [(Fin 1, INT_TYPE)])
     (\<lambda>(root, h). eval 2 real_platform h (Some root))
     = Ret (\<lparr>type = DOUBLE_TYPE, value = Fin 1\<rparr>, [])"
    using exp2_type_rule [where func = CBRT_FUNC and M = real_platform and n = 1] m
    by (intro call) (simp del: eval.simps add: eval_nat_numeral)
  ultimately show ?thesis by simp
qed

end
